theory Spec2Isabelle
  imports Main "HOL-Library.Sublist"
begin

section \<open>JavaScript strings, arrays and buffers\<close>

text \<open>
  A string is a list of code units. The 8-bit \<^typ>\<open>char\<close> of HOL stands for the code
  units U+0000 to U+00FF; a \<open>Buffer\<close> is a list of bytes, written as a \<^typ>\<open>string\<close> too.
  \<open>Buffer.toString()\<close> is the identity on the ASCII bytes the proxy inspects.
\<close>

definition CRLF :: string where
  "CRLF = [CHR 0x0D, CHR 0x0A]"

text \<open>\<open>s.includes(sub)\<close>\<close>

fun js_includes :: "string \<Rightarrow> string \<Rightarrow> bool" where
  "js_includes [] sub = (sub = [])"
| "js_includes (x # xs) sub = (prefix sub (x # xs) \<or> js_includes xs sub)"

text \<open>\<open>buffer.indexOf(sub)\<close>: the first position of \<open>sub\<close>, \<open>None\<close> for \<open>-1\<close>.\<close>

fun js_indexOf :: "string \<Rightarrow> string \<Rightarrow> nat option" where
  "js_indexOf [] sub = (if sub = [] then Some 0 else None)"
| "js_indexOf (x # xs) sub =
     (if prefix sub (x # xs) then Some 0 else map_option Suc (js_indexOf xs sub))"

text \<open>\<open>s.split(sep)\<close>; with the empty separator the string falls into its code units.\<close>

fun js_split :: "string \<Rightarrow> string \<Rightarrow> string list" where
  "js_split [] s = map (\<lambda>c. [c]) s"
| "js_split (d # ds) [] = [[]]"
| "js_split (d # ds) (x # xs) =
     (if prefix (d # ds) (x # xs) then [] # js_split (d # ds) (drop (length ds) xs)
      else (case js_split (d # ds) xs of [] \<Rightarrow> [[x]] | w # ws \<Rightarrow> (x # w) # ws))"

text \<open>\<open>parts.join(sep)\<close>\<close>

fun js_join :: "string \<Rightarrow> string list \<Rightarrow> string" where
  "js_join sep [] = []"
| "js_join sep [x] = x"
| "js_join sep (x # y # ys) = x @ sep @ js_join sep (y # ys)"

text \<open>\<open>xs[i]\<close> on an array: \<open>None\<close> is \<open>undefined\<close>, the value out of range.\<close>

definition js_at :: "'a list \<Rightarrow> nat \<Rightarrow> 'a option" where
  "js_at xs i = (if i < length xs then Some (xs ! i) else None)"

text \<open>\<open>xs.pop()\<close>, read for its result only.\<close>

definition js_pop :: "'a list \<Rightarrow> 'a option" where
  "js_pop xs = (if xs = [] then None else Some (last xs))"

text \<open>\<open>s || d\<close> for a possibly undefined string \<open>s\<close>: the empty string is falsy.\<close>

definition js_or_str :: "string option \<Rightarrow> string \<Rightarrow> string" where
  "js_or_str s d = (case s of None \<Rightarrow> d | Some t \<Rightarrow> if t = [] then d else t)"

text \<open>Decimal rendering of an integer, as a template literal prints it.\<close>

definition digit_char :: "nat \<Rightarrow> char" where
  "digit_char n = ''0123456789'' ! n"

fun string_of_nat :: "nat \<Rightarrow> string" where
  "string_of_nat n =
     (if n < 10 then [digit_char n] else string_of_nat (n div 10) @ [digit_char (n mod 10)])"

declare string_of_nat.simps [simp del]

definition string_of_int :: "int \<Rightarrow> string" where
  "string_of_int i = (if i < 0 then CHR ''-'' # string_of_nat (nat (- i)) else string_of_nat (nat i))"

text \<open>
  The UTF-8 encoding of a string of code units below U+0100 (\<open>Buffer.from(s)\<close>), and the
  number of bytes it takes on the wire.
\<close>

fun utf8_encode :: "string \<Rightarrow> nat list" where
  "utf8_encode [] = []"
| "utf8_encode (c # cs) =
     (if (of_char c :: nat) < 128 then [of_char c]
      else [192 + of_char c div 64, 128 + of_char c mod 64]) @ utf8_encode cs"

definition byte_length :: "string \<Rightarrow> nat" where
  "byte_length s = length (utf8_encode s)"

text \<open>\<open>buf.toString('base64')\<close>\<close>

definition base64_char :: "nat \<Rightarrow> char" where
  "base64_char n = ''ABCDEFGHIJKLMNOPQRSTUVWXYZabcdefghijklmnopqrstuvwxyz0123456789+/'' ! n"

fun base64 :: "nat list \<Rightarrow> string" where
  "base64 [] = []"
| "base64 [a] = [base64_char (a div 4), base64_char (a mod 4 * 16), CHR ''='', CHR ''='']"
| "base64 [a, b] =
     [base64_char (a div 4), base64_char (a mod 4 * 16 + b div 16),
      base64_char (b mod 16 * 4), CHR ''='']"
| "base64 (a # b # c # rest) =
     [base64_char (a div 4), base64_char (a mod 4 * 16 + b div 16),
      base64_char (b mod 16 * 4 + c div 64), base64_char (c mod 64)] @ base64 rest"

text \<open>
  The regular expressions of the proxy are literals anchored at one end: \<open>/^lit/\<close> and
  \<open>/lit$/\<close> (no flags, so \<open>$\<close> is the end of the input).
\<close>

datatype pattern = AtStart string | AtEnd string

fun pattern_test :: "pattern \<Rightarrow> string \<Rightarrow> bool" where
  "pattern_test (AtStart lit) s = prefix lit s"
| "pattern_test (AtEnd lit) s = suffix lit s"


section \<open>JavaScript values\<close>

text \<open>
  The catalog is the result of \<open>JSON.parse\<close> and is typed \<open>any\<close> in the source. \<open>JObj\<close>
  lists the own properties of a plain object in enumeration order (should a name occur
  twice, its first entry is the property). \<open>JBuiltin\<close> stands for a value the runtime supplies
  through a prototype (a method such as \<open>toString\<close>): it is truthy and has no JSON content.
  Numbers are restricted to integers; only their being zero or not is ever inspected.
\<close>

datatype jsval =
    JUndefined
  | JNull
  | JBool bool
  | JNum int
  | JStr string
  | JArr "jsval list"
  | JObj "(string \<times> jsval) list"
  | JBuiltin string

datatype exn = TypeError

text \<open>
  What the runtime supplies to one call: the names a value that is not a plain object
  inherits from its prototype chain, the reading of \<open>Date.now()\<close> in milliseconds, and the
  text of \<open>new Date().toUTCString()\<close>.
\<close>

record runtime =
  inherited :: "jsval \<Rightarrow> string list"
  date_now :: int
  utc_string :: string

fun js_truthy :: "jsval \<Rightarrow> bool" where
  "js_truthy JUndefined = False"
| "js_truthy JNull = False"
| "js_truthy (JBool b) = b"
| "js_truthy (JNum n) = (n \<noteq> 0)"
| "js_truthy (JStr s) = (s \<noteq> [])"
| "js_truthy (JArr xs) = True"
| "js_truthy (JObj kvs) = True"
| "js_truthy (JBuiltin n) = True"

fun js_nullish :: "jsval \<Rightarrow> bool" where
  "js_nullish JUndefined = True"
| "js_nullish JNull = True"
| "js_nullish v = False"

text \<open>\<open>a || b\<close>\<close>

definition js_or :: "jsval \<Rightarrow> jsval \<Rightarrow> jsval" where
  "js_or a b = (if js_truthy a then a else b)"

text \<open>The string-keyed members every plain object inherits from \<open>Object.prototype\<close>.\<close>

definition object_prototype_members :: "string list" where
  "object_prototype_members =
     [''constructor'', ''__defineGetter__'', ''__defineSetter__'', ''hasOwnProperty'',
      ''__lookupGetter__'', ''__lookupSetter__'', ''isPrototypeOf'', ''propertyIsEnumerable'',
      ''toString'', ''valueOf'', ''__proto__'', ''toLocaleString'']"

text \<open>
  Array index names (\<open>0\<close>, \<open>1\<close>, \<open>2\<close>, ... without leading zeros), and the index below \<open>n\<close>
  that a name denotes. No prototype of the runtime has a member under an index name.
\<close>

definition is_array_index :: "string \<Rightarrow> bool" where
  "is_array_index k =
     (k \<noteq> [] \<and> list_all (\<lambda>c. c \<in> set ''0123456789'') k \<and> (k = ''0'' \<or> take 1 k \<noteq> ''0''))"

definition array_index :: "string \<Rightarrow> nat \<Rightarrow> nat option" where
  "array_index k n = find (\<lambda>i. string_of_nat i = k) [0..<n]"

text \<open>
  \<open>v[k]\<close> and \<open>v.k\<close> for a value \<open>v\<close> that is neither \<open>null\<close> nor \<open>undefined\<close>: own
  properties first, then the prototype chain. On \<open>null\<close> and \<open>undefined\<close> the access throws a
  \<open>TypeError\<close>: whoever reads a member here has tested \<open>js_nullish\<close> before.
\<close>

fun js_get :: "runtime \<Rightarrow> jsval \<Rightarrow> string \<Rightarrow> jsval" where
  "js_get rt (JObj kvs) k =
     (case map_of kvs k of
        Some v \<Rightarrow> v
      | None \<Rightarrow> if k \<in> set object_prototype_members then JBuiltin k else JUndefined)"
| "js_get rt (JArr xs) k =
     (case array_index k (length xs) of
        Some i \<Rightarrow> xs ! i
      | None \<Rightarrow>
          if is_array_index k then JUndefined
          else if k = ''length'' then JNum (int (length xs))
          else if k \<in> set (inherited rt (JArr xs)) then JBuiltin k else JUndefined)"
| "js_get rt (JStr s) k =
     (case array_index k (length s) of
        Some i \<Rightarrow> JStr [s ! i]
      | None \<Rightarrow>
          if is_array_index k then JUndefined
          else if k = ''length'' then JNum (int (length s))
          else if k \<in> set (inherited rt (JStr s)) then JBuiltin k else JUndefined)"
| "js_get rt JUndefined k = JUndefined"
| "js_get rt JNull k = JUndefined"
| "js_get rt v k =
     (if is_array_index k then JUndefined
      else if k \<in> set (inherited rt v) then JBuiltin k else JUndefined)"

text \<open>\<open>v?.k\<close> and \<open>v?.[k]\<close>\<close>

definition js_opt_member :: "runtime \<Rightarrow> jsval \<Rightarrow> string \<Rightarrow> jsval" where
  "js_opt_member rt v k = (if js_nullish v then JUndefined else js_get rt v k)"

text \<open>
  \<open>JSON.stringify\<close>: \<open>None\<close> is the result \<open>undefined\<close>. Control characters without a short
  escape are written \<open>\u00XX\<close>.
\<close>

definition hex_char :: "nat \<Rightarrow> char" where
  "hex_char n = ''0123456789abcdef'' ! n"

definition json_escape_char :: "char \<Rightarrow> string" where
  \<open>json_escape_char c =
     (if c = CHR ''"'' then [CHR 0x5C, CHR ''"'']
      else if c = CHR 0x5C then [CHR 0x5C, CHR 0x5C]
      else if c = CHR 0x08 then [CHR 0x5C, CHR ''b'']
      else if c = CHR 0x09 then [CHR 0x5C, CHR ''t'']
      else if c = CHR 0x0A then [CHR 0x5C, CHR ''n'']
      else if c = CHR 0x0C then [CHR 0x5C, CHR ''f'']
      else if c = CHR 0x0D then [CHR 0x5C, CHR ''r'']
      else if (of_char c :: nat) < 32
        then [CHR 0x5C, CHR ''u'', CHR ''0'', CHR ''0'',
              hex_char (of_char c div 16), hex_char (of_char c mod 16)]
      else [c])\<close>

definition json_quote :: "string \<Rightarrow> string" where
  \<open>json_quote s = [CHR ''"''] @ concat (map json_escape_char s) @ [CHR ''"'']\<close>

fun json_stringify :: "jsval \<Rightarrow> string option" where
  "json_stringify JUndefined = None"
| "json_stringify (JBuiltin n) = None"
| "json_stringify JNull = Some ''null''"
| "json_stringify (JBool b) = Some (if b then ''true'' else ''false'')"
| "json_stringify (JNum n) = Some (string_of_int n)"
| "json_stringify (JStr s) = Some (json_quote s)"
| "json_stringify (JArr xs) =
     Some (''['' @ js_join '','' (map (\<lambda>x. case json_stringify x of None \<Rightarrow> ''null'' | Some t \<Rightarrow> t) xs)
           @ '']'')"
| "json_stringify (JObj kvs) =
     Some (''{'' @ js_join '',''
             (concat (map (\<lambda>kv. case json_stringify (snd kv) of
                                   None \<Rightarrow> []
                                 | Some t \<Rightarrow> [json_quote (fst kv) @ '':'' @ t]) kvs))
           @ ''}'')"

text \<open>\<open>JSON.stringify\<close> of an object literal, which is never \<open>undefined\<close>.\<close>

definition json_text :: "jsval \<Rightarrow> string" where
  "json_text v = (case json_stringify v of Some t \<Rightarrow> t | None \<Rightarrow> ''undefined'')"


section \<open>Requests, responses and the server object\<close>

text \<open>\<open>http.IncomingMessage\<close>, as far as the proxy reads it; \<open>payload\<close> is the request body.\<close>

record request =
  http_method :: "string option"
  url :: "string option"
  headers :: "(string \<times> string) list"
  payload :: string

text \<open>\<open>interface MockResponse\<close>\<close>

record MockResponse =
  statusCode :: nat
  mock_headers :: "(string \<times> jsval) list option"
  body :: jsval

text \<open>The value of a header of a response.\<close>

definition header :: "MockResponse \<Rightarrow> string \<Rightarrow> jsval option" where
  "header r name = (case mock_headers r of None \<Rightarrow> None | Some hs \<Rightarrow> map_of hs name)"

text \<open>\<open>interface MockConfig\<close>\<close>

record MockConfig =
  version :: string
  services :: jsval

text \<open>The \<open>http.Server\<close> behind the proxy, as far as \<open>stop\<close> is concerned.\<close>

record http_server =
  listening :: bool

text \<open>\<open>class ProxyServer\<close>: its fields (the logger apart).\<close>

record ProxyServer =
  server :: "http_server option"
  port :: nat
  config :: "MockConfig option"

definition new_ProxyServer :: ProxyServer where
  "new_ProxyServer = \<lparr>server = None, port = 3128, config = None\<rparr>"


section \<open>RequestClassifier\<close>

definition awsPatterns :: "pattern list" where
  "awsPatterns =
     [AtEnd ''.amazonaws.com'',
      AtEnd ''.aws.amazon.com'',
      AtStart ''s3.'',
      AtStart ''dynamodb.'',
      AtStart ''lambda.'',
      AtStart ''sqs.'',
      AtStart ''sns.'',
      AtEnd ''s3.amazonaws.com'',
      AtEnd ''dynamodb.amazonaws.com'',
      AtEnd ''lambda.amazonaws.com'']"

text \<open>
  \<open>isAwsRequest\<close>. \<open>split\<close> never returns an empty array; were \<open>[0]\<close> undefined, \<open>test\<close>
  would read it as the text \<open>undefined\<close>.
\<close>

definition isAwsRequest :: "string \<Rightarrow> bool" where
  "isAwsRequest hostname =
     (let cleanHostname = (case js_at (js_split '':'' hostname) 0 of
                             Some h \<Rightarrow> h
                           | None \<Rightarrow> ''undefined'')
      in list_ex (\<lambda>p. pattern_test p cleanHostname) awsPatterns)"

definition identifyService :: "string \<Rightarrow> string option" where
  "identifyService hostname =
     (if js_includes hostname ''s3'' then Some ''s3''
      else if js_includes hostname ''dynamodb'' then Some ''dynamodb''
      else if js_includes hostname ''lambda'' then Some ''lambda''
      else if js_includes hostname ''sqs'' then Some ''sqs''
      else if js_includes hostname ''sns'' then Some ''sns''
      else None)"


section \<open>OperationExtractor\<close>

definition extractOperation :: "request \<Rightarrow> string" where
  "extractOperation req =
     (let fallback = js_or_str (http_method req) ''GET'' @ ''_''
            @ js_or_str (js_at (js_split ''/'' (js_or_str (url req) '''')) 1) ''unknown''
      in case map_of (headers req) ''x-amz-target'' of
           Some target \<Rightarrow>
             if target \<noteq> [] then js_or_str (js_pop (js_split ''.'' target)) ''unknown''
             else fallback
         | None \<Rightarrow> fallback)"


section \<open>MockResponseGenerator\<close>

definition not_found :: MockResponse where
  "not_found =
     \<lparr>statusCode = 404, mock_headers = None, body = JObj [(''error'', JStr ''Not Found'')]\<rparr>"

text \<open>The text of the template literal around \<open>Date.now()\<close>: the reading between double quotes.\<close>

definition etag :: "runtime \<Rightarrow> string" where
  \<open>etag rt = [CHR ''"''] @ string_of_int (date_now rt) @ [CHR ''"'']\<close>

text \<open>\<open>url.split('/').filter(p => p)\<close>\<close>

definition pathParts :: "request \<Rightarrow> string list" where
  "pathParts req = filter (\<lambda>p. p \<noteq> []) (js_split ''/'' (js_or_str (url req) ''''))"

text \<open>\<open>serviceConfig.buckets?.[bucket]?.objects?.[key]\<close>, for a \<open>serviceConfig\<close> that is not nullish.\<close>

definition s3_objectConfig :: "runtime \<Rightarrow> jsval \<Rightarrow> string \<Rightarrow> string \<Rightarrow> jsval" where
  "s3_objectConfig rt serviceConfig bucket key =
     (let bucketConfig = js_opt_member rt (js_get rt serviceConfig ''buckets'') bucket
      in js_opt_member rt (js_opt_member rt bucketConfig ''objects'') key)"

text \<open>The tail of \<open>generateS3Response\<close>, reached when the GET branch has not returned.\<close>

definition s3_put_or_404 :: "runtime \<Rightarrow> request \<Rightarrow> string option \<Rightarrow> string \<Rightarrow> MockResponse" where
  "s3_put_or_404 rt req bucket key =
     (if http_method req = Some ''PUT'' \<and> bucket \<noteq> None \<and> bucket \<noteq> Some [] \<and> key \<noteq> []
      then \<lparr>statusCode = 200, mock_headers = Some [(''ETag'', JStr (etag rt))], body = JStr ''''\<rparr>
      else not_found)"

definition generateS3Response :: "runtime \<Rightarrow> string \<Rightarrow> jsval \<Rightarrow> request \<Rightarrow> exn + MockResponse" where
  "generateS3Response rt operation serviceConfig req =
     (let bucket = js_at (pathParts req) 0;
          key = js_join ''/'' (drop 1 (pathParts req))
      in case bucket of
           Some b \<Rightarrow>
             if http_method req = Some ''GET'' \<and> b \<noteq> [] \<and> key \<noteq> [] then
               (if js_nullish serviceConfig then Inl TypeError
                else
                  let objectConfig = s3_objectConfig rt serviceConfig b key
                  in if js_truthy objectConfig then
                       Inr \<lparr>statusCode = 200,
                            mock_headers = Some
                              [(''Content-Type'',
                                  js_or (js_opt_member rt (js_get rt objectConfig ''metadata'') ''ContentType'')
                                        (JStr ''application/octet-stream'')),
                               (''ETag'', JStr (etag rt)),
                               (''Last-Modified'', JStr (utc_string rt))],
                            body = js_get rt objectConfig ''content''\<rparr>
                     else Inr (s3_put_or_404 rt req bucket key))
             else Inr (s3_put_or_404 rt req bucket key)
         | None \<Rightarrow> Inr (s3_put_or_404 rt req bucket key))"


definition generateDynamoDBResponse :: "runtime \<Rightarrow> string \<Rightarrow> jsval \<Rightarrow> request \<Rightarrow> exn + MockResponse" where
  "generateDynamoDBResponse rt operation serviceConfig req =
     (if js_includes operation ''GetItem'' then
        (if js_nullish serviceConfig then Inl TypeError
         else
           let item = js_opt_member rt
                        (js_opt_member rt
                           (js_opt_member rt (js_get rt serviceConfig ''tables'') ''Users'')
                           ''items'')
                        ''0''
           in Inr \<lparr>statusCode = 200, mock_headers = None,
                   body = JObj [(''Item'', js_or item (JObj []))]\<rparr>)
      else if js_includes operation ''PutItem'' then
        Inr \<lparr>statusCode = 200, mock_headers = None, body = JObj []\<rparr>
      else
        Inr \<lparr>statusCode = 400, mock_headers = None,
             body = JObj [(''error'', JStr ''Unsupported operation'')]\<rparr>)"

definition extractFunctionName :: "request \<Rightarrow> string" where
  "extractFunctionName req = ''myFunction''"

definition function_not_found :: MockResponse where
  "function_not_found =
     \<lparr>statusCode = 404, mock_headers = None,
      body = JObj [(''error'', JStr ''Function not found'')]\<rparr>"

definition generateLambdaResponse :: "runtime \<Rightarrow> string \<Rightarrow> jsval \<Rightarrow> request \<Rightarrow> exn + MockResponse" where
  "generateLambdaResponse rt operation serviceConfig req =
     (if js_includes operation ''Invoke'' then
        (if js_nullish serviceConfig then Inl TypeError
         else
           let functionName = extractFunctionName req;
               functionConfig = js_opt_member rt (js_get rt serviceConfig ''functions'') functionName;
               response = js_opt_member rt functionConfig ''response''
           in if js_truthy response then
                Inr \<lparr>statusCode = 200,
                     mock_headers = Some [(''Content-Type'', JStr ''application/json'')],
                     body = response\<rparr>
              else Inr function_not_found)
      else Inr function_not_found)"

definition generateServiceResponse ::
    "runtime \<Rightarrow> string \<Rightarrow> string \<Rightarrow> jsval \<Rightarrow> request \<Rightarrow> exn + MockResponse" where
  "generateServiceResponse rt service operation serviceConfig req =
     (if service = ''s3'' then generateS3Response rt operation serviceConfig req
      else if service = ''dynamodb'' then generateDynamoDBResponse rt operation serviceConfig req
      else if service = ''lambda'' then generateLambdaResponse rt operation serviceConfig req
      else Inr \<lparr>statusCode = 501, mock_headers = None,
                body = JObj [(''error'', JStr (''Service '' @ service @ '' not implemented''))]\<rparr>)"

text \<open>\<open>generateMockResponse\<close>: \<open>Inr None\<close> is the result \<open>null\<close>, which sends the request on to the origin.\<close>

definition generateMockResponse ::
    "ProxyServer \<Rightarrow> runtime \<Rightarrow> request \<Rightarrow> string \<Rightarrow> exn + MockResponse option" where
  "generateMockResponse self rt req hostname =
     (case config self of
        None \<Rightarrow> Inr None
      | Some cfg \<Rightarrow>
          if \<not> js_truthy (services cfg) then Inr None
          else
            (case identifyService hostname of
               None \<Rightarrow> Inr None
             | Some service \<Rightarrow>
                 if \<not> js_truthy (js_get rt (services cfg) service) then Inr None
                 else
                   let serviceConfig = js_get rt (services cfg) service;
                       operation = extractOperation req
                   in (case generateServiceResponse rt service operation serviceConfig req of
                         Inl e \<Rightarrow> Inl e
                       | Inr r \<Rightarrow> Inr (Some r))))"


section \<open>TunnelInterceptor\<close>

text \<open>The value of \<open>responseBody\<close> at the end of the if-chain of \<open>generateMockHttpResponse\<close>.\<close>

definition responseBody :: "string \<Rightarrow> string \<Rightarrow> string" where
  "responseBody hostname requestLine =
     (if js_includes hostname ''s3'' \<and> js_includes requestLine ''GET'' then
        json_text (JObj [(''message'', JStr ''Mock S3 GetObject response'')])
      else if js_includes hostname ''dynamodb'' \<and> js_includes requestLine ''POST'' then
        json_text (JObj [(''Item'', JObj [(''id'', JObj [(''S'', JStr ''user1'')]),
                                         (''name'', JObj [(''S'', JStr ''Mock User'')])])])
      else if js_includes hostname ''lambda'' \<and> js_includes requestLine ''POST'' then
        json_text (JObj [(''Payload'',
          JStr (base64 (utf8_encode (json_text (JObj [(''result'', JStr ''Mock Lambda response'')])))))])
      else
        json_text (JObj [(''error'', JStr ''Service not mocked'')]))"

text \<open>\<open>generateMockHttpResponse\<close>, a method of the server object, which it never reads.\<close>

definition generateMockHttpResponse :: "ProxyServer \<Rightarrow> string \<Rightarrow> string \<Rightarrow> string" where
  "generateMockHttpResponse self hostname requestLine =
     ''HTTP/1.1 200 OK'' @ CRLF
     @ ''Content-Type: application/x-amz-json-1.0'' @ CRLF
     @ ''Content-Length: '' @ string_of_nat (length (responseBody hostname requestLine)) @ CRLF @ CRLF
     @ responseBody hostname requestLine"

text \<open>
  The state of one intercepted tunnel: the variables the \<open>data\<close> handler closes over, what has
  been written to the client socket, and the number of \<open>clientSocket.end()\<close> timers set.
\<close>

record tunnel =
  hostname :: string
  buffer :: string
  expectingRequest :: bool
  written :: "string list"
  end_timers :: nat

definition connection_established :: string where
  "connection_established = ''HTTP/1.1 200 Connection Established'' @ CRLF @ CRLF"

text \<open>\<open>handleHttpsTunnel\<close> up to the registration of the handlers; \<open>req_url\<close> is \<open>req.url\<close>.\<close>

definition handleHttpsTunnel :: "ProxyServer \<Rightarrow> string option \<Rightarrow> string \<Rightarrow> tunnel" where
  "handleHttpsTunnel self req_url head =
     \<lparr>hostname = js_or_str req_url '''', buffer = head, expectingRequest = True,
      written = [connection_established], end_timers = 0\<rparr>"

text \<open>The \<open>data\<close> handler of the client socket.\<close>

definition on_data :: "ProxyServer \<Rightarrow> tunnel \<Rightarrow> string \<Rightarrow> tunnel" where
  "on_data self t chunk =
     (if expectingRequest t then
        (let buffer' = buffer t @ chunk
         in case js_indexOf buffer' (CRLF @ CRLF) of
              None \<Rightarrow> t\<lparr>buffer := buffer'\<rparr>
            | Some headerEnd \<Rightarrow>
                let requestStr = take headerEnd buffer';
                    lines = js_split CRLF requestStr;
                    requestLine = (case js_at lines 0 of Some l \<Rightarrow> l | None \<Rightarrow> ''undefined'');
                    mockResponse = generateMockHttpResponse self (hostname t) requestLine
                in t\<lparr>buffer := buffer', expectingRequest := False,
                     written := written t @ [mockResponse],
                     end_timers := Suc (end_timers t)\<rparr>)
      else t)"

text \<open>A tunnel fed the chunks of the client in order.\<close>

definition tunnel_run :: "ProxyServer \<Rightarrow> string option \<Rightarrow> string \<Rightarrow> string list \<Rightarrow> tunnel" where
  "tunnel_run self req_url head chunks = foldl (on_data self) (handleHttpsTunnel self req_url head) chunks"

text \<open>The synthesized responses written so far: every write after the tunnel preamble.\<close>

definition responses :: "tunnel \<Rightarrow> string list" where
  "responses t = drop 1 (written t)"


section \<open>Lifecycle: stop\<close>

text \<open>The proxy-routing variables of \<open>process.env\<close>.\<close>

record process_env =
  HTTP_PROXY :: "string option"
  HTTPS_PROXY :: "string option"

text \<open>
  The server object in its process: \<open>pending_close\<close> counts the callbacks handed to
  \<open>server.close\<close> that have not run yet, \<open>resolved\<close> the promises of \<open>stop\<close> resolved so far.
\<close>

record world =
  proxy :: ProxyServer
  env :: process_env
  pending_close :: nat
  resolved :: nat

text \<open>\<open>this.server.close(cb)\<close>: a method call, which throws on \<open>null\<close>.\<close>

definition server_close :: "http_server option \<Rightarrow> exn + http_server" where
  "server_close s = (case s of None \<Rightarrow> Inl TypeError | Some h \<Rightarrow> Inr (h\<lparr>listening := False\<rparr>))"

text \<open>The body of \<open>stop\<close>, up to the return of the promise.\<close>

definition stop :: "world \<Rightarrow> exn + world" where
  "stop w =
     (if server (proxy w) \<noteq> None then
        (case server_close (server (proxy w)) of
           Inl e \<Rightarrow> Inl e
         | Inr h \<Rightarrow> Inr (w\<lparr>proxy := (proxy w)\<lparr>server := Some h\<rparr>,
                            pending_close := Suc (pending_close w)\<rparr>))
      else Inr (w\<lparr>resolved := Suc (resolved w)\<rparr>))"

text \<open>The callback of \<open>server.close\<close>, run by the event loop once the server has closed.\<close>

definition close_callback :: "world \<Rightarrow> world" where
  "close_callback w =
     w\<lparr>env := \<lparr>HTTP_PROXY = None, HTTPS_PROXY = None\<rparr>,
       proxy := (proxy w)\<lparr>server := None\<rparr>,
       pending_close := pending_close w - 1,
       resolved := Suc (resolved w)\<rparr>"

datatype event = StopCall | CloseDone

text \<open>One step of the process; a close event with no callback waiting does not occur.\<close>

definition step :: "world \<Rightarrow> event \<Rightarrow> exn + world" where
  "step w e =
     (case e of
        StopCall \<Rightarrow> stop w
      | CloseDone \<Rightarrow> if pending_close w = 0 then Inr w else Inr (close_callback w))"

fun run :: "world \<Rightarrow> event list \<Rightarrow> exn + world" where
  "run w [] = Inr w"
| "run w (e # es) = (case step w e of Inl x \<Rightarrow> Inl x | Inr w' \<Rightarrow> run w' es)"

text \<open>The process right after \<open>new ProxyServer()\<close>, with whatever environment it has.\<close>

definition fresh_world :: "process_env \<Rightarrow> world" where
  "fresh_world e = \<lparr>proxy = new_ProxyServer, env = e, pending_close = 0, resolved = 0\<rparr>"

text \<open>
  \<open>start\<close> when the port is free: the server listens and the callback of \<open>listen\<close> has set
  the proxy-routing variables.
\<close>

definition start :: "world \<Rightarrow> MockConfig \<Rightarrow> world" where
  "start w cfg =
     w\<lparr>proxy := (proxy w)\<lparr>config := Some cfg, server := Some \<lparr>listening = True\<rparr>\<rparr>,
       env := \<lparr>HTTP_PROXY = Some (''http://localhost:'' @ string_of_nat (port (proxy w))),
               HTTPS_PROXY = Some (''http://localhost:'' @ string_of_nat (port (proxy w)))\<rparr>\<rparr>"

text \<open>Is a socket of the proxy listening?\<close>

definition listening_socket :: "world \<Rightarrow> bool" where
  "listening_socket w = (case server (proxy w) of None \<Rightarrow> False | Some h \<Rightarrow> listening h)"


section \<open>Notions of the specification\<close>

text \<open>
  The wire form the specification prescribes for a response written onto a tunnel: a status
  line \<open>HTTP/1.1 code reason\<close>, one line \<open>name: value\<close> per header, a blank line, the body;
  every line ends in CR LF.
\<close>

definition wire_response :: "nat \<Rightarrow> string \<Rightarrow> (string \<times> string) list \<Rightarrow> string \<Rightarrow> string" where
  "wire_response code reason hdrs content =
     ''HTTP/1.1 '' @ string_of_nat code @ '' '' @ reason @ CRLF
     @ concat (map (\<lambda>hv. fst hv @ '': '' @ snd hv @ CRLF) hdrs)
     @ CRLF @ content"

text \<open>
  The operation as the specification words it: the final dot-segment of the target header when
  the header is present, otherwise the method, an underscore and the first segment of the path
  (of a path that begins with a slash: the text after it, up to the next slash).
\<close>

definition final_dot_segment :: "string \<Rightarrow> string" where
  "final_dot_segment target = rev (takeWhile (\<lambda>c. c \<noteq> CHR ''.'') (rev target))"

definition first_path_segment :: "string \<Rightarrow> string" where
  "first_path_segment path = takeWhile (\<lambda>c. c \<noteq> CHR ''/'') (drop 1 path)"

definition specified_operation :: "request \<Rightarrow> string" where
  "specified_operation req =
     (case map_of (headers req) ''x-amz-target'' of
        Some target \<Rightarrow> final_dot_segment target
      | None \<Rightarrow>
          (case http_method req of Some m \<Rightarrow> m | None \<Rightarrow> [])
          @ ''_'' @ first_path_segment (case url req of Some u \<Rightarrow> u | None \<Rightarrow> []))"


text \<open>
  The catalog as the data model of the specification describes it: the properties an object
  is configured with, the items configured for the table \<open>Users\<close> of a DynamoDB service
  configuration, and the first of them, with the empty object when there is none.
\<close>

fun own_property :: "jsval \<Rightarrow> string \<Rightarrow> jsval option" where
  "own_property (JObj kvs) k = map_of kvs k"
| "own_property v k = None"

fun is_object :: "jsval \<Rightarrow> bool" where
  "is_object (JObj kvs) = True"
| "is_object v = False"

definition users_items :: "jsval \<Rightarrow> jsval option" where
  "users_items cfg =
     Option.bind (Option.bind (own_property cfg ''tables'') (\<lambda>t. own_property t ''Users''))
       (\<lambda>u. own_property u ''items'')"

definition first_configured_item :: "jsval \<Rightarrow> jsval" where
  "first_configured_item cfg =
     (case users_items cfg of
        Some (JArr (item # rest)) \<Rightarrow> item
      | _ \<Rightarrow> JObj [])"

text \<open>
  A DynamoDB service configuration of the shape the data model gives: an object whose
  \<open>tables\<close>, if present, is an object; whose table \<open>Users\<close>, if present, is an object; and
  whose \<open>items\<close>, if present, is an array of objects (attribute maps).
\<close>

definition dynamodb_config :: "jsval \<Rightarrow> bool" where
  "dynamodb_config cfg =
     (is_object cfg \<and>
      (case own_property cfg ''tables'' of
         None \<Rightarrow> True
       | Some t \<Rightarrow>
           is_object t \<and>
           (case own_property t ''Users'' of
              None \<Rightarrow> True
            | Some u \<Rightarrow>
                is_object u \<and>
                (case own_property u ''items'' of
                   None \<Rightarrow> True
                 | Some (JArr xs) \<Rightarrow> list_all is_object xs
                 | Some v \<Rightarrow> False))))"






section \<open>Facts about strings\<close>

lemma js_includes_sublist: "js_includes s sub \<longleftrightarrow> sublist sub s"
  by (induction s) (simp_all add: sublist_Cons_right)

lemma js_includes_sep:
  assumes "c \<notin> set t"
  shows "js_includes (a @ c # b) t \<longleftrightarrow> js_includes a t \<or> js_includes b t"
proof -
  have "\<not> prefix (x # xs) (c # b)" if "x # xs = t2" "t = t1 @ t2" for x xs t1 t2
    using that assms by auto
  then have mid: "(\<exists>t1 t2. t = t1 @ t2 \<and> suffix t1 a \<and> prefix t2 (c # b)) \<longleftrightarrow> suffix t a"
    by (metis append_Nil2 list.exhaust prefix_bot.extremum)
  have "sublist t (c # b) \<longleftrightarrow> sublist t b \<or> t = []"
    using assms by (cases t) (auto simp: sublist_Cons_right)
  then show ?thesis
    unfolding js_includes_sublist sublist_append mid by auto
qed

lemma js_includes_outside:
  assumes "x \<in> set t" "x \<notin> set p"
  shows "\<not> js_includes p t"
  using assms set_mono_sublist unfolding js_includes_sublist by fastforce

lemma js_split_not_Nil: "js_split (d # ds) s \<noteq> []"
  by (induction s rule: length_induct) (case_tac xs; simp split: list.splits)

lemma js_split_char_first: "js_at (js_split [c] s) 0 = Some (takeWhile (\<lambda>x. x \<noteq> c) s)"
  by (induction s) (auto simp: js_at_def split: list.splits)

lemma takeWhile_upto_sep: "takeWhile (\<lambda>x. x \<noteq> c) (h @ c # p) = takeWhile (\<lambda>x. x \<noteq> c) h"
  by (induction h) simp_all


section \<open>RequestClassifier: the port suffix\<close>

lemma isAwsRequest_port: "isAwsRequest (h @ '':'' @ p) = isAwsRequest h"
  by (simp add: isAwsRequest_def js_split_char_first takeWhile_upto_sep)

lemma js_includes_port:
  assumes "x \<in> set t" "x \<notin> set p" "c \<notin> set t"
  shows "js_includes (h @ c # p) t = js_includes h t"
  using assms js_includes_outside [of x t p] by (simp add: js_includes_sep)

lemma identifyService_port:
  assumes "list_all (\<lambda>c. c \<in> set ''0123456789'') p"
  shows "identifyService (h @ '':'' @ p) = identifyService h"
proof -
  from assms have sub: "set p \<subseteq> set ''0123456789''"
    unfolding list_all_iff by blast
  have "CHR ''s'' \<notin> set ''0123456789''" by simp
  with sub have nos: "CHR ''s'' \<notin> set p" by blast
  have "CHR ''d'' \<notin> set ''0123456789''" by simp
  with sub have nod: "CHR ''d'' \<notin> set p" by blast
  have "CHR ''l'' \<notin> set ''0123456789''" by simp
  with sub have nol: "CHR ''l'' \<notin> set p" by blast
  have 1: "js_includes (h @ CHR '':'' # p) ''s3'' = js_includes h ''s3''"
    by (rule js_includes_port [of "CHR ''s''"]) (simp_all add: nos)
  have 2: "js_includes (h @ CHR '':'' # p) ''dynamodb'' = js_includes h ''dynamodb''"
    by (rule js_includes_port [of "CHR ''d''"]) (simp_all add: nod)
  have 3: "js_includes (h @ CHR '':'' # p) ''lambda'' = js_includes h ''lambda''"
    by (rule js_includes_port [of "CHR ''l''"]) (simp_all add: nol)
  have 4: "js_includes (h @ CHR '':'' # p) ''sqs'' = js_includes h ''sqs''"
    by (rule js_includes_port [of "CHR ''s''"]) (simp_all add: nos)
  have 5: "js_includes (h @ CHR '':'' # p) ''sns'' = js_includes h ''sns''"
    by (rule js_includes_port [of "CHR ''s''"]) (simp_all add: nos)
  show ?thesis unfolding identifyService_def by (simp only: append_Cons append_Nil 1 2 3 4 5)
qed

text \<open>
  Claim C10. Appending a port suffix (a colon and decimal digits) to a hostname changes
  neither whether the hostname is recognized (\<open>isAwsRequest\<close>) nor the service it is
  mapped to (\<open>identifyService\<close>).
\<close>

theorem port_stripping:
  assumes "list_all (\<lambda>c. c \<in> set ''0123456789'') p"
  shows "isAwsRequest (h @ '':'' @ p) = isAwsRequest h
       \<and> identifyService (h @ '':'' @ p) = identifyService h"
  using assms by (simp only: isAwsRequest_port identifyService_port)

theorem port_stripping_witness:
  "list_all (\<lambda>c. c \<in> set ''0123456789'') ''443''
   \<and> isAwsRequest ''s3.example.com:443'' = isAwsRequest ''s3.example.com''
   \<and> identifyService ''s3.example.com:443'' = identifyService ''s3.example.com''
   \<and> isAwsRequest ''s3.example.com''
   \<and> identifyService ''s3.example.com'' = Some ''s3''"
proof -
  have d: "list_all (\<lambda>c. c \<in> set ''0123456789'') ''443''" by simp
  have a: "isAwsRequest ''s3.example.com''"
    by (simp add: isAwsRequest_def js_at_def awsPatterns_def)
  have s: "identifyService ''s3.example.com'' = Some ''s3''"
    by (simp add: identifyService_def)
  from port_stripping [OF d, of "''s3.example.com''"] d a s show ?thesis by simp
qed


section \<open>TunnelInterceptor: the bodies of the synthesized responses\<close>

lemma body_s3:
  \<open>json_text (JObj [(''message'', JStr ''Mock S3 GetObject response'')])
     = ''{"message":"Mock S3 GetObject response"}''\<close>
  by (simp add: json_text_def json_quote_def json_escape_char_def)

lemma body_dynamodb:
  \<open>json_text (JObj [(''Item'', JObj [(''id'', JObj [(''S'', JStr ''user1'')]),
                                      (''name'', JObj [(''S'', JStr ''Mock User'')])])])
     = ''{"Item":{"id":{"S":"user1"},"name":{"S":"Mock User"}}}''\<close>
  by (simp add: json_text_def json_quote_def json_escape_char_def)

lemma body_result:
  \<open>json_text (JObj [(''result'', JStr ''Mock Lambda response'')])
     = ''{"result":"Mock Lambda response"}''\<close>
  by (simp add: json_text_def json_quote_def json_escape_char_def)

lemma payload_base64:
  \<open>base64 (utf8_encode ''{"result":"Mock Lambda response"}'')
     = ''eyJyZXN1bHQiOiJNb2NrIExhbWJkYSByZXNwb25zZSJ9''\<close>
  by (simp add: base64_char_def)

lemma body_lambda:
  \<open>json_text (JObj [(''Payload'',
       JStr (base64 (utf8_encode (json_text (JObj [(''result'', JStr ''Mock Lambda response'')])))))])
     = ''{"Payload":"eyJyZXN1bHQiOiJNb2NrIExhbWJkYSByZXNwb25zZSJ9"}''\<close>
  unfolding body_result payload_base64
  by (simp add: json_text_def json_quote_def json_escape_char_def)

lemma body_error:
  \<open>json_text (JObj [(''error'', JStr ''Service not mocked'')])
     = ''{"error":"Service not mocked"}''\<close>
  by (simp add: json_text_def json_quote_def json_escape_char_def)

lemmas responseBody_texts = body_s3 body_dynamodb body_lambda body_error

lemma responseBody_cases:
  \<open>responseBody h r \<in> {''{"message":"Mock S3 GetObject response"}'',
                     ''{"Item":{"id":{"S":"user1"},"name":{"S":"Mock User"}}}'',
                     ''{"Payload":"eyJyZXN1bHQiOiJNb2NrIExhbWJkYSByZXNwb25zZSJ9"}'',
                     ''{"error":"Service not mocked"}''}\<close>
  unfolding responseBody_def responseBody_texts by simp

lemma responseBody_ascii: "byte_length (responseBody h r) = length (responseBody h r)"
proof -
  have \<open>byte_length ''{"message":"Mock S3 GetObject response"}'' = 40\<close>
    by (simp add: byte_length_def)
  moreover have \<open>byte_length ''{"Item":{"id":{"S":"user1"},"name":{"S":"Mock User"}}}'' = 54\<close>
    by (simp add: byte_length_def)
  moreover have \<open>byte_length ''{"Payload":"eyJyZXN1bHQiOiJNb2NrIExhbWJkYSByZXNwb25zZSJ9"}'' = 58\<close>
    by (simp add: byte_length_def)
  moreover have \<open>byte_length ''{"error":"Service not mocked"}'' = 30\<close>
    by (simp add: byte_length_def)
  ultimately show ?thesis
    using responseBody_cases [of h r] by auto
qed


section \<open>OperationExtractor: the extracted operation\<close>

lemma js_split_char_append:
  "js_split [c] (a @ c # b) = js_split [c] a @ js_split [c] b"
  by (induction a) (auto simp: js_split_not_Nil split: list.splits)

lemma js_split_char_none: "c \<notin> set s \<Longrightarrow> js_split [c] s = [s]"
  by (induction s) auto

lemma takeWhile_rev_last_sep:
  assumes "c \<notin> set seg"
  shows "rev (takeWhile (\<lambda>x. x \<noteq> c) (rev (pre @ c # seg))) = seg"
proof -
  have "takeWhile (\<lambda>x. x \<noteq> c) (rev seg @ c # rev pre) = takeWhile (\<lambda>x. x \<noteq> c) (rev seg)"
    by (rule takeWhile_upto_sep)
  also have "\<dots> = rev seg"
    using assms by auto
  finally show ?thesis by simp
qed

lemma js_pop_split_char:
  "js_pop (js_split [c] s) = Some (rev (takeWhile (\<lambda>x. x \<noteq> c) (rev s)))"
proof (cases "c \<in> set s")
  case False
  then have tw: "takeWhile (\<lambda>x. x \<noteq> c) (rev s) = rev s"
    by auto
  show ?thesis
    unfolding tw by (simp add: js_split_char_none [OF False] js_pop_def)
next
  case True
  then obtain pre seg where s: "s = pre @ c # seg" and seg: "c \<notin> set seg"
    by (meson split_list_last)
  have "js_pop (js_split [c] (pre @ c # seg)) = Some seg"
    by (simp add: js_split_char_append js_split_char_none seg js_pop_def js_split_not_Nil)
  then show ?thesis
    unfolding s takeWhile_rev_last_sep [OF seg] .
qed

lemma js_split_slash_second:
  "js_at (js_split ''/'' (CHR ''/'' # u)) 1 = Some (takeWhile (\<lambda>x. x \<noteq> CHR ''/'') u)"
  using js_split_char_first [of "CHR ''/''" u]
  by (simp add: js_at_def js_split_not_Nil split: if_splits)

text \<open>
  Claim C8, as amended. A non-empty target header gives its final dot-segment, or \<open>unknown\<close>
  when that segment is empty. With the header absent or empty, and a request URL that begins
  with a slash, the operation is the method (\<open>GET\<close> when there is none), an underscore, and the
  text between the first slash and the next one, or \<open>unknown\<close> when that text is empty.
\<close>

theorem extractOperation_amended:
  "(\<forall>target. map_of (headers req) ''x-amz-target'' = Some target \<and> target \<noteq> [] \<longrightarrow>
      extractOperation req =
        (if final_dot_segment target = [] then ''unknown'' else final_dot_segment target))
   \<and> (\<forall>u. (map_of (headers req) ''x-amz-target'' = None
            \<or> map_of (headers req) ''x-amz-target'' = Some [])
          \<and> url req = Some (CHR ''/'' # u) \<longrightarrow>
      extractOperation req =
        (case http_method req of None \<Rightarrow> ''GET'' | Some m \<Rightarrow> if m = [] then ''GET'' else m)
        @ ''_''
        @ (if first_path_segment (CHR ''/'' # u) = [] then ''unknown''
           else first_path_segment (CHR ''/'' # u)))"
proof (intro conjI allI impI)
  fix target
  assume "map_of (headers req) ''x-amz-target'' = Some target \<and> target \<noteq> []"
  then show "extractOperation req =
        (if final_dot_segment target = [] then ''unknown'' else final_dot_segment target)"
    by (simp add: extractOperation_def Let_def js_pop_split_char js_or_str_def final_dot_segment_def)
next
  fix u
  assume a: "(map_of (headers req) ''x-amz-target'' = None
            \<or> map_of (headers req) ''x-amz-target'' = Some [])
          \<and> url req = Some (CHR ''/'' # u)"
  then have u: "js_or_str (url req) '''' = CHR ''/'' # u"
    by (simp add: js_or_str_def)
  from a show "extractOperation req =
        (case http_method req of None \<Rightarrow> ''GET'' | Some m \<Rightarrow> if m = [] then ''GET'' else m)
        @ ''_''
        @ (if first_path_segment (CHR ''/'' # u) = [] then ''unknown''
           else first_path_segment (CHR ''/'' # u))"
    unfolding extractOperation_def Let_def u js_split_slash_second
    by (auto simp: js_or_str_def first_path_segment_def split: option.splits)
qed

theorem extractOperation_amended_witness:
  "extractOperation \<lparr>http_method = Some ''POST'', url = Some ''/'',
      headers = [(''x-amz-target'', ''DynamoDB_20120810.GetItem'')], payload = []\<rparr> = ''GetItem''
   \<and> extractOperation \<lparr>http_method = Some ''GET'', url = Some ''/b/k'',
      headers = [], payload = []\<rparr> = ''GET_b''"
proof -
  let ?r1 = "\<lparr>http_method = Some ''POST'', url = Some ''/'',
      headers = [(''x-amz-target'', ''DynamoDB_20120810.GetItem'')], payload = []\<rparr>"
  let ?r2 = "\<lparr>http_method = Some ''GET'', url = Some ''/b/k'', headers = [], payload = []\<rparr>"
  have 1: "map_of (headers ?r1) ''x-amz-target'' = Some ''DynamoDB_20120810.GetItem''
           \<and> ''DynamoDB_20120810.GetItem'' \<noteq> []"
    by simp
  have 2: "(map_of (headers ?r2) ''x-amz-target'' = None
            \<or> map_of (headers ?r2) ''x-amz-target'' = Some [])
          \<and> url ?r2 = Some (CHR ''/'' # ''b/k'')"
    by simp
  from extractOperation_amended [of ?r1] 1
  have "extractOperation ?r1 = ''GetItem''"
    by (simp add: final_dot_segment_def)
  moreover from extractOperation_amended [of ?r2] 2
  have "extractOperation ?r2 = ''GET_b''"
    by (simp add: first_path_segment_def)
  ultimately show ?thesis by simp
qed

text \<open>
  Claim C8, as stated, fails. The target \<open>DynamoDB_20120810.\<close> has an empty final dot-segment
  and \<open>GET /\<close> has an empty first path segment; the extracted operations are \<open>unknown\<close> and
  \<open>GET_unknown\<close>.
\<close>

theorem extractOperation_counterexample:
  "extractOperation \<lparr>http_method = Some ''POST'', url = Some ''/'',
      headers = [(''x-amz-target'', ''DynamoDB_20120810.'')], payload = []\<rparr>
     \<noteq> specified_operation \<lparr>http_method = Some ''POST'', url = Some ''/'',
      headers = [(''x-amz-target'', ''DynamoDB_20120810.'')], payload = []\<rparr>
   \<and> extractOperation \<lparr>http_method = Some ''GET'', url = Some ''/'', headers = [], payload = []\<rparr>
     \<noteq> specified_operation \<lparr>http_method = Some ''GET'', url = Some ''/'', headers = [], payload = []\<rparr>"
  by (simp add: extractOperation_def specified_operation_def final_dot_segment_def
      first_path_segment_def js_or_str_def js_pop_def js_at_def)


section \<open>TunnelInterceptor: the response on the wire\<close>

lemma string_of_nat_200: "string_of_nat 200 = ''200''"
  by (simp add: string_of_nat.simps digit_char_def)

text \<open>
  Claim C3. The response written onto an intercepted tunnel has the wire form of the
  specification, with status \<open>200 OK\<close>, a \<open>Content-Type\<close> and a \<open>Content-Length\<close> header, and
  the value of \<open>Content-Length\<close> is the number of bytes of the body.
\<close>

theorem tunnel_response_wire_form:
  "generateMockHttpResponse self h r =
     wire_response 200 ''OK''
       [(''Content-Type'', ''application/x-amz-json-1.0''),
        (''Content-Length'', string_of_nat (byte_length (responseBody h r)))]
       (responseBody h r)"
  by (simp add: generateMockHttpResponse_def Let_def wire_response_def string_of_nat_200 responseBody_ascii)

theorem tunnel_response_wire_form_witness:
  \<open>generateMockHttpResponse new_ProxyServer ''s3.amazonaws.com:443'' ''GET /b/k HTTP/1.1'' =
     ''HTTP/1.1 200 OK'' @ CRLF
     @ ''Content-Type: application/x-amz-json-1.0'' @ CRLF
     @ ''Content-Length: 40'' @ CRLF
     @ CRLF
     @ ''{"message":"Mock S3 GetObject response"}''\<close>
proof -
  have b: \<open>responseBody ''s3.amazonaws.com:443'' ''GET /b/k HTTP/1.1''
             = ''{"message":"Mock S3 GetObject response"}''\<close>
    by (simp add: responseBody_def body_s3)
  have n: "string_of_nat 40 = ''40''"
    by (simp add: string_of_nat.simps digit_char_def)
  have l: \<open>byte_length ''{"message":"Mock S3 GetObject response"}'' = 40\<close>
    by (simp add: byte_length_def)
  show ?thesis
    unfolding tunnel_response_wire_form [of new_ProxyServer "''s3.amazonaws.com:443''" "''GET /b/k HTTP/1.1''"] b l n
    by (simp add: wire_response_def string_of_nat_200)
qed

lemma generateMockHttpResponse_any_server:
  "generateMockHttpResponse s1 = generateMockHttpResponse s2"
  by (intro ext) (simp add: generateMockHttpResponse_def Let_def)

lemma on_data_any_server: "on_data s1 = on_data s2"
  unfolding on_data_def generateMockHttpResponse_any_server [of s1 s2] ..

text \<open>
  Claim C4. The response of the tunnel path begins with the status line \<open>HTTP/1.1 200 OK\<close>. It
  is the same for any two server objects, whatever their catalogs, and so is the whole run of
  a tunnel. When neither the S3, the DynamoDB nor the Lambda branch matches, the status is
  still 200 and the body is \<open>{"error":"Service not mocked"}\<close>.
\<close>

theorem tunnel_response_ignores_catalog:
  \<open>generateMockHttpResponse s1 h r = generateMockHttpResponse s2 h r
   \<and> generateMockHttpResponse (self\<lparr>config := c1\<rparr>) h r = generateMockHttpResponse (self\<lparr>config := c2\<rparr>) h r
   \<and> tunnel_run (self\<lparr>config := c1\<rparr>) u hd0 cs = tunnel_run (self\<lparr>config := c2\<rparr>) u hd0 cs
   \<and> prefix (''HTTP/1.1 200 OK'' @ CRLF) (generateMockHttpResponse self h r)
   \<and> (\<not> (js_includes h ''s3'' \<and> js_includes r ''GET'')
        \<and> \<not> (js_includes h ''dynamodb'' \<and> js_includes r ''POST'')
        \<and> \<not> (js_includes h ''lambda'' \<and> js_includes r ''POST'')
      \<longrightarrow> generateMockHttpResponse self h r =
            ''HTTP/1.1 200 OK'' @ CRLF
            @ ''Content-Type: application/x-amz-json-1.0'' @ CRLF
            @ ''Content-Length: 30'' @ CRLF
            @ CRLF
            @ ''{"error":"Service not mocked"}'')\<close>
proof (intro conjI impI)
  show "generateMockHttpResponse s1 h r = generateMockHttpResponse s2 h r"
    by (simp add: generateMockHttpResponse_def Let_def)
  show "generateMockHttpResponse (self\<lparr>config := c1\<rparr>) h r = generateMockHttpResponse (self\<lparr>config := c2\<rparr>) h r"
    by (simp add: generateMockHttpResponse_def Let_def)
  show "tunnel_run (self\<lparr>config := c1\<rparr>) u hd0 cs = tunnel_run (self\<lparr>config := c2\<rparr>) u hd0 cs"
    unfolding tunnel_run_def on_data_any_server [of "self\<lparr>config := c1\<rparr>" "self\<lparr>config := c2\<rparr>"]
    by (simp add: handleHttpsTunnel_def)
  show "prefix (''HTTP/1.1 200 OK'' @ CRLF) (generateMockHttpResponse self h r)"
    unfolding generateMockHttpResponse_def Let_def by (rule prefixI) simp
next
  assume "\<not> (js_includes h ''s3'' \<and> js_includes r ''GET'')
        \<and> \<not> (js_includes h ''dynamodb'' \<and> js_includes r ''POST'')
        \<and> \<not> (js_includes h ''lambda'' \<and> js_includes r ''POST'')"
  then have b: \<open>responseBody h r = ''{"error":"Service not mocked"}''\<close>
    unfolding responseBody_def body_error by auto
  have n: "string_of_nat 30 = ''30''"
    by (simp add: string_of_nat.simps digit_char_def)
  have l: \<open>length ''{"error":"Service not mocked"}'' = 30\<close>
    by simp
  show \<open>generateMockHttpResponse self h r =
            ''HTTP/1.1 200 OK'' @ CRLF
            @ ''Content-Type: application/x-amz-json-1.0'' @ CRLF
            @ ''Content-Length: 30'' @ CRLF
            @ CRLF
            @ ''{"error":"Service not mocked"}''\<close>
    unfolding generateMockHttpResponse_def Let_def b l n by simp
qed

theorem tunnel_response_ignores_catalog_witness:
  \<open>generateMockHttpResponse
      (new_ProxyServer\<lparr>config := Some \<lparr>version = ''1.0'', services = JObj []\<rparr>\<rparr>)
      ''sqs.us-east-1.amazonaws.com:443'' ''POST / HTTP/1.1''
    = generateMockHttpResponse
      (new_ProxyServer\<lparr>config := Some \<lparr>version = ''1.0'',
         services = JObj [(''sqs'', JObj [(''queues'', JObj [])])]\<rparr>\<rparr>)
      ''sqs.us-east-1.amazonaws.com:443'' ''POST / HTTP/1.1''
   \<and> generateMockHttpResponse new_ProxyServer ''sqs.us-east-1.amazonaws.com:443'' ''POST / HTTP/1.1''
    = ''HTTP/1.1 200 OK'' @ CRLF
      @ ''Content-Type: application/x-amz-json-1.0'' @ CRLF
      @ ''Content-Length: 30'' @ CRLF
      @ CRLF
      @ ''{"error":"Service not mocked"}''\<close>
proof -
  have "\<not> (js_includes ''sqs.us-east-1.amazonaws.com:443'' ''s3'' \<and> js_includes ''POST / HTTP/1.1'' ''GET'')
        \<and> \<not> (js_includes ''sqs.us-east-1.amazonaws.com:443'' ''dynamodb'' \<and> js_includes ''POST / HTTP/1.1'' ''POST'')
        \<and> \<not> (js_includes ''sqs.us-east-1.amazonaws.com:443'' ''lambda'' \<and> js_includes ''POST / HTTP/1.1'' ''POST'')"
    by simp
  with tunnel_response_ignores_catalog
         [where h = "''sqs.us-east-1.amazonaws.com:443''" and r = "''POST / HTTP/1.1''"
            and self = new_ProxyServer]
  show ?thesis by blast
qed


section \<open>TunnelInterceptor: one response for each tunnel\<close>

lemma js_indexOf_None: "js_indexOf s sub = None \<longleftrightarrow> \<not> js_includes s sub"
  by (induction s) auto

lemma js_includes_mono: "js_includes a t \<Longrightarrow> js_includes (a @ b) t"
  unfolding js_includes_sublist by (simp add: sublist_append)

lemma on_data_closed: "\<not> expectingRequest t \<Longrightarrow> on_data self t c = t"
  by (simp add: on_data_def)

lemma foldl_on_data_closed: "\<not> expectingRequest t \<Longrightarrow> foldl (on_data self) t cs = t"
  by (induction cs) (simp_all add: on_data_closed)

lemma on_data_waiting:
  assumes "expectingRequest t" "\<not> js_includes (buffer t @ c) (CRLF @ CRLF)"
  shows "on_data self t c = t\<lparr>buffer := buffer t @ c\<rparr>"
  using assms js_indexOf_None [of "buffer t @ c" "CRLF @ CRLF"]
  by (simp add: on_data_def Let_def)

lemma on_data_respond:
  assumes "expectingRequest t" "js_includes (buffer t @ c) (CRLF @ CRLF)"
  shows "\<exists>requestLine. on_data self t c =
           t\<lparr>buffer := buffer t @ c, expectingRequest := False,
             written := written t @ [generateMockHttpResponse self (hostname t) requestLine],
             end_timers := Suc (end_timers t)\<rparr>"
proof -
  from assms(2) obtain e where "js_indexOf (buffer t @ c) (CRLF @ CRLF) = Some e"
    using js_indexOf_None [of "buffer t @ c" "CRLF @ CRLF"] by auto
  with assms(1) show ?thesis
    by (simp add: on_data_def Let_def) blast
qed

lemma foldl_on_data_waiting:
  assumes "expectingRequest t" "\<not> js_includes (buffer t @ concat cs) (CRLF @ CRLF)"
  shows "foldl (on_data self) t cs = t\<lparr>buffer := buffer t @ concat cs\<rparr>"
  using assms
proof (induction cs arbitrary: t)
  case Nil
  then show ?case by simp
next
  case (Cons c cs)
  from Cons.prems(2) have no: "\<not> js_includes (buffer t @ c) (CRLF @ CRLF)"
    using js_includes_mono [of "buffer t @ c" "CRLF @ CRLF" "concat cs"] by auto
  let ?t = "t\<lparr>buffer := buffer t @ c\<rparr>"
  have step: "on_data self t c = ?t"
    by (rule on_data_waiting [OF Cons.prems(1) no])
  have "foldl (on_data self) ?t cs = ?t\<lparr>buffer := buffer ?t @ concat cs\<rparr>"
    using Cons.prems by (intro Cons.IH) simp_all
  then show ?case by (simp add: step)
qed

lemma foldl_on_data_first_terminator:
  assumes "expectingRequest t"
    and "pre = [] \<or> \<not> js_includes (buffer t @ concat pre) (CRLF @ CRLF)"
    and "js_includes (buffer t @ concat pre @ c) (CRLF @ CRLF)"
  shows "\<exists>requestLine. foldl (on_data self) t (pre @ c # post) =
           t\<lparr>buffer := buffer t @ concat pre @ c, expectingRequest := False,
             written := written t @ [generateMockHttpResponse self (hostname t) requestLine],
             end_timers := Suc (end_timers t)\<rparr>"
proof -
  let ?t = "t\<lparr>buffer := buffer t @ concat pre\<rparr>"
  have pre: "foldl (on_data self) t pre = ?t"
  proof (cases "pre = []")
    case True
    then show ?thesis by simp
  next
    case False
    with assms(2) show ?thesis
      by (intro foldl_on_data_waiting [OF assms(1)]) simp
  qed
  from on_data_respond [of ?t c self] assms(1,3)
  obtain requestLine where r: "on_data self ?t c =
      ?t\<lparr>buffer := buffer ?t @ c, expectingRequest := False,
        written := written ?t @ [generateMockHttpResponse self (hostname ?t) requestLine],
        end_timers := Suc (end_timers ?t)\<rparr>"
    by auto
  have "foldl (on_data self) t (pre @ c # post) = foldl (on_data self) (on_data self ?t c) post"
    by (simp add: pre)
  also have "\<dots> = on_data self ?t c"
    by (rule foldl_on_data_closed) (simp add: r)
  finally show ?thesis
    by (auto simp: r)
qed

lemma tunnel_writes_invariant:
  assumes "(expectingRequest t \<and> written t = [connection_established])
           \<or> (\<not> expectingRequest t \<and> (\<exists>resp. written t = [connection_established, resp]))"
  shows "(expectingRequest (foldl (on_data self) t cs) \<and> written (foldl (on_data self) t cs) = [connection_established])
           \<or> (\<not> expectingRequest (foldl (on_data self) t cs)
               \<and> (\<exists>resp. written (foldl (on_data self) t cs) = [connection_established, resp]))"
  using assms
proof (induction cs arbitrary: t)
  case Nil
  then show ?case by simp
next
  case (Cons c cs)
  have "(expectingRequest (on_data self t c) \<and> written (on_data self t c) = [connection_established])
           \<or> (\<not> expectingRequest (on_data self t c)
               \<and> (\<exists>resp. written (on_data self t c) = [connection_established, resp]))"
  proof (cases "expectingRequest t")
    case False
    with Cons.prems show ?thesis by (simp add: on_data_closed)
  next
    case True
    with Cons.prems have w: "written t = [connection_established]" by auto
    show ?thesis
    proof (cases "js_includes (buffer t @ c) (CRLF @ CRLF)")
      case False
      with True w show ?thesis by (simp add: on_data_waiting)
    next
      case yes: True
      from on_data_respond [OF True yes, of self] w show ?thesis by auto
    qed
  qed
  then show ?case by (simp add: Cons.IH)
qed

text \<open>
  Claim C2, as amended. An intercepted tunnel writes at most one synthesized response. While
  the bytes received so far (the head of the CONNECT request and the chunks) hold no double
  CR LF, nothing is written and the bytes are buffered. The response is written at the first
  chunk with which they hold one; the chunks after it change nothing: no write, no byte
  buffered, no request parsed.
\<close>

theorem tunnel_single_response:
  "length (responses (tunnel_run self u head cs)) \<le> 1
   \<and> ((cs = [] \<or> \<not> js_includes (head @ concat cs) (CRLF @ CRLF)) \<longrightarrow>
         responses (tunnel_run self u head cs) = []
         \<and> expectingRequest (tunnel_run self u head cs)
         \<and> buffer (tunnel_run self u head cs) = head @ concat cs)
   \<and> ((pre = [] \<or> \<not> js_includes (head @ concat pre) (CRLF @ CRLF))
        \<and> js_includes (head @ concat pre @ c) (CRLF @ CRLF) \<longrightarrow>
         responses (tunnel_run self u head pre) = []
         \<and> (\<exists>requestLine. responses (tunnel_run self u head (pre @ [c]))
                = [generateMockHttpResponse self (js_or_str u '''') requestLine])
         \<and> tunnel_run self u head (pre @ c # post) = tunnel_run self u head (pre @ [c])
         \<and> buffer (tunnel_run self u head (pre @ c # post)) = head @ concat pre @ c)"
proof (intro conjI impI)
  let ?t0 = "handleHttpsTunnel self u head"
  have t0: "expectingRequest ?t0" "buffer ?t0 = head" "written ?t0 = [connection_established]"
    "hostname ?t0 = js_or_str u ''''"
    by (simp_all add: handleHttpsTunnel_def)
  have waiting: "foldl (on_data self) ?t0 xs = ?t0\<lparr>buffer := head @ concat xs\<rparr>"
    if "xs = [] \<or> \<not> js_includes (head @ concat xs) (CRLF @ CRLF)" for xs
  proof (cases "xs = []")
    case True
    then show ?thesis by (simp add: t0)
  next
    case False
    with that foldl_on_data_waiting [of ?t0 xs self] show ?thesis
      by (simp add: t0)
  qed
  from tunnel_writes_invariant [of ?t0 self cs]
  show "length (responses (tunnel_run self u head cs)) \<le> 1"
    unfolding responses_def tunnel_run_def by (auto simp: t0)
  {
    assume "cs = [] \<or> \<not> js_includes (head @ concat cs) (CRLF @ CRLF)"
    then have r: "tunnel_run self u head cs = ?t0\<lparr>buffer := head @ concat cs\<rparr>"
      unfolding tunnel_run_def by (rule waiting)
    show "responses (tunnel_run self u head cs) = []"
      by (simp add: r responses_def t0)
    show "expectingRequest (tunnel_run self u head cs)"
      by (simp add: r t0)
    show "buffer (tunnel_run self u head cs) = head @ concat cs"
      by (simp add: r)
  }
  {
    assume a: "(pre = [] \<or> \<not> js_includes (head @ concat pre) (CRLF @ CRLF))
        \<and> js_includes (head @ concat pre @ c) (CRLF @ CRLF)"
    then have "tunnel_run self u head pre = ?t0\<lparr>buffer := head @ concat pre\<rparr>"
      unfolding tunnel_run_def by (intro waiting) simp
    then show "responses (tunnel_run self u head pre) = []"
      by (simp add: responses_def t0)
    have first: "\<exists>requestLine. foldl (on_data self) ?t0 (pre @ c # xs) =
           ?t0\<lparr>buffer := head @ concat pre @ c, expectingRequest := False,
             written := [connection_established,
                         generateMockHttpResponse self (js_or_str u '''') requestLine],
             end_timers := Suc (end_timers ?t0)\<rparr>" for xs
      using foldl_on_data_first_terminator [of ?t0 pre c self xs] a by (simp add: t0)
    from first [of "[]"]
    show "\<exists>requestLine. responses (tunnel_run self u head (pre @ [c]))
                = [generateMockHttpResponse self (js_or_str u '''') requestLine]"
      unfolding tunnel_run_def responses_def by auto
    have "foldl (on_data self) ?t0 (pre @ c # post)
            = foldl (on_data self) (foldl (on_data self) ?t0 (pre @ [c])) post"
      by simp
    also have "\<dots> = foldl (on_data self) ?t0 (pre @ [c])"
      using first [of "[]"] by (intro foldl_on_data_closed) auto
    finally show "tunnel_run self u head (pre @ c # post) = tunnel_run self u head (pre @ [c])"
      unfolding tunnel_run_def .
    from first [of post]
    show "buffer (tunnel_run self u head (pre @ c # post)) = head @ concat pre @ c"
      unfolding tunnel_run_def by auto
  }
qed

theorem tunnel_single_response_witness:
  "responses (tunnel_run new_ProxyServer (Some ''s3.amazonaws.com:443'') []
      [''GET /b/k HTTP/1.1'' @ CRLF]) = []
   \<and> tunnel_run new_ProxyServer (Some ''s3.amazonaws.com:443'') []
        [''GET /b/k HTTP/1.1'' @ CRLF, ''Host: b'' @ CRLF @ CRLF, ''GET /again HTTP/1.1'' @ CRLF @ CRLF]
     = tunnel_run new_ProxyServer (Some ''s3.amazonaws.com:443'') []
        [''GET /b/k HTTP/1.1'' @ CRLF, ''Host: b'' @ CRLF @ CRLF]
   \<and> length (responses (tunnel_run new_ProxyServer (Some ''s3.amazonaws.com:443'') []
        [''GET /b/k HTTP/1.1'' @ CRLF, ''Host: b'' @ CRLF @ CRLF, ''GET /again HTTP/1.1'' @ CRLF @ CRLF])) \<le> 1"
proof -
  have h: "([''GET /b/k HTTP/1.1'' @ CRLF] = []
            \<or> \<not> js_includes ([] @ concat [''GET /b/k HTTP/1.1'' @ CRLF]) (CRLF @ CRLF))
        \<and> js_includes ([] @ concat [''GET /b/k HTTP/1.1'' @ CRLF] @ (''Host: b'' @ CRLF @ CRLF)) (CRLF @ CRLF)"
    by (simp add: CRLF_def)
  note t = tunnel_single_response
         [where self = new_ProxyServer and u = "Some ''s3.amazonaws.com:443''" and head = "[]"
            and pre = "[''GET /b/k HTTP/1.1'' @ CRLF]" and c = "''Host: b'' @ CRLF @ CRLF"
            and post = "[''GET /again HTTP/1.1'' @ CRLF @ CRLF]"
            and cs = "[''GET /b/k HTTP/1.1'' @ CRLF, ''Host: b'' @ CRLF @ CRLF, ''GET /again HTTP/1.1'' @ CRLF @ CRLF]"]
  from t h have 1: "responses (tunnel_run new_ProxyServer (Some ''s3.amazonaws.com:443'') []
      [''GET /b/k HTTP/1.1'' @ CRLF]) = []"
    by blast
  from t h have "tunnel_run new_ProxyServer (Some ''s3.amazonaws.com:443'') []
        ([''GET /b/k HTTP/1.1'' @ CRLF] @ (''Host: b'' @ CRLF @ CRLF) # [''GET /again HTTP/1.1'' @ CRLF @ CRLF])
     = tunnel_run new_ProxyServer (Some ''s3.amazonaws.com:443'') []
        ([''GET /b/k HTTP/1.1'' @ CRLF] @ [''Host: b'' @ CRLF @ CRLF])"
    by blast
  then have 2: "tunnel_run new_ProxyServer (Some ''s3.amazonaws.com:443'') []
        [''GET /b/k HTTP/1.1'' @ CRLF, ''Host: b'' @ CRLF @ CRLF, ''GET /again HTTP/1.1'' @ CRLF @ CRLF]
     = tunnel_run new_ProxyServer (Some ''s3.amazonaws.com:443'') []
        [''GET /b/k HTTP/1.1'' @ CRLF, ''Host: b'' @ CRLF @ CRLF]"
    by (simp only: append_Cons append_Nil)
  from t have 3: "length (responses (tunnel_run new_ProxyServer (Some ''s3.amazonaws.com:443'') []
        [''GET /b/k HTTP/1.1'' @ CRLF, ''Host: b'' @ CRLF @ CRLF, ''GET /again HTTP/1.1'' @ CRLF @ CRLF])) \<le> 1"
    by blast
  from 1 2 3 show ?thesis by (intro conjI)
qed

text \<open>
  Claim C2, as stated, fails: a client that sends a request line and one header line, but
  no blank line, gets no response at all.
\<close>

theorem tunnel_single_response_counterexample:
  "responses (tunnel_run new_ProxyServer (Some ''s3.amazonaws.com:443'') []
      [''GET /b/k HTTP/1.1'' @ CRLF, ''Host: s3.amazonaws.com'' @ CRLF]) = []"
  by (simp add: tunnel_run_def handleHttpsTunnel_def on_data_def responses_def CRLF_def Let_def)


section \<open>Lifecycle: stopping twice\<close>

lemma step_returns: "\<exists>w'. step w e = Inr w'"
  by (cases e) (auto simp: step_def stop_def server_close_def)

lemma run_returns: "\<exists>w'. run w es = Inr w'"
proof (induction es arbitrary: w)
  case Nil
  show ?case by simp
next
  case (Cons e es)
  from step_returns [of w e] obtain w1 where "step w e = Inr w1" ..
  with Cons.IH [of w1] show ?case by simp
qed

lemma step_stays_closed:
  assumes "\<not> listening_socket w" "step w e = Inr w'"
  shows "\<not> listening_socket w'"
  using assms
  by (cases e)
     (auto simp: step_def stop_def server_close_def close_callback_def listening_socket_def
           split: if_splits option.splits)

lemma run_stays_closed:
  assumes "\<not> listening_socket w" "run w es = Inr w'"
  shows "\<not> listening_socket w'"
  using assms
proof (induction es arbitrary: w)
  case Nil
  then show ?case by simp
next
  case (Cons e es)
  from step_returns [of w e] obtain w1 where s: "step w e = Inr w1" ..
  with Cons.prems step_stays_closed [of w e w1] have "\<not> listening_socket w1" by simp
  with Cons.IH [of w1] Cons.prems(2) s show ?case by simp
qed

lemma stop_closes_socket:
  assumes "stop w = Inr w'"
  shows "\<not> listening_socket w'"
  using assms
  by (auto simp: stop_def server_close_def listening_socket_def split: if_splits option.splits)

text \<open>
  Claim C9. \<open>stop\<close> never throws, whatever calls of \<open>stop\<close> and close events came before.
  Called on a server that was never started, or that has no server any more, it resolves at
  once and changes nothing else. Once it has been called, no socket of the proxy listens;
  once its close event has run, the server is gone and a second \<open>stop\<close> is such a no-op. Two
  calls in a row, before any close event, end in the same state.
\<close>

theorem stop_idempotent:
  "(\<exists>w'. run w es = Inr w')
   \<and> (\<forall>w'. run w (StopCall # es) = Inr w' \<longrightarrow> \<not> listening_socket w')
   \<and> run (fresh_world e) [StopCall] = Inr ((fresh_world e)\<lparr>resolved := 1\<rparr>)
   \<and> (server (proxy w) = None \<longrightarrow> run w [StopCall] = Inr (w\<lparr>resolved := Suc (resolved w)\<rparr>))
   \<and> (\<forall>w1. run w [StopCall, CloseDone] = Inr w1 \<longrightarrow>
         server (proxy w1) = None \<and> run w1 [StopCall] = Inr (w1\<lparr>resolved := Suc (resolved w1)\<rparr>))
   \<and> (server (proxy w) \<noteq> None \<and> pending_close w = 0 \<longrightarrow>
         run w [StopCall, StopCall, CloseDone, CloseDone]
           = Inr (w\<lparr>proxy := (proxy w)\<lparr>server := None\<rparr>,
                   env := \<lparr>HTTP_PROXY = None, HTTPS_PROXY = None\<rparr>,
                   resolved := Suc (Suc (resolved w))\<rparr>))"
proof (intro conjI allI impI)
  show "\<exists>w'. run w es = Inr w'"
    by (rule run_returns)
  show "\<not> listening_socket w'" if "run w (StopCall # es) = Inr w'" for w'
  proof -
    from step_returns [of w StopCall] obtain w1 where s: "step w StopCall = Inr w1" ..
    then have "\<not> listening_socket w1"
      by (simp add: step_def stop_closes_socket)
    with that s show ?thesis
      using run_stays_closed [of w1 es w'] by simp
  qed
  show "run (fresh_world e) [StopCall] = Inr ((fresh_world e)\<lparr>resolved := 1\<rparr>)"
    by (simp add: step_def stop_def fresh_world_def new_ProxyServer_def)
  show "run w [StopCall] = Inr (w\<lparr>resolved := Suc (resolved w)\<rparr>)" if "server (proxy w) = None"
    using that by (simp add: step_def stop_def)
  {
    fix w1
    assume a: "run w [StopCall, CloseDone] = Inr w1"
    have n: "server (proxy w1) = None"
    proof (cases "server (proxy w)")
      case None
      with a show ?thesis
        by (auto simp: step_def stop_def close_callback_def split: if_splits)
    next
      case (Some h)
      with a show ?thesis
        by (auto simp: step_def stop_def server_close_def close_callback_def)
    qed
    show "server (proxy w1) = None" by (rule n)
    show "run w1 [StopCall] = Inr (w1\<lparr>resolved := Suc (resolved w1)\<rparr>)"
      by (simp add: step_def stop_def n)
  }
  {
    assume a: "server (proxy w) \<noteq> None \<and> pending_close w = 0"
    then obtain h where h: "server (proxy w) = Some h" by auto
    define w1 where "w1 = w\<lparr>proxy := (proxy w)\<lparr>server := Some (h\<lparr>listening := False\<rparr>)\<rparr>,
                            pending_close := Suc 0\<rparr>"
    define w2 where "w2 = w1\<lparr>pending_close := Suc (Suc 0)\<rparr>"
    define w3 where "w3 = close_callback w2"
    define w4 where "w4 = close_callback w3"
    have s1: "step w StopCall = Inr w1"
      using a h by (simp add: step_def stop_def server_close_def w1_def)
    have s2: "step w1 StopCall = Inr w2"
      by (simp add: step_def stop_def server_close_def w1_def w2_def)
    have s3: "step w2 CloseDone = Inr w3"
      by (simp add: step_def w2_def w3_def)
    have s4: "step w3 CloseDone = Inr w4"
      by (simp add: step_def w2_def w3_def w4_def close_callback_def)
    have "w4 = w\<lparr>proxy := (proxy w)\<lparr>server := None\<rparr>,
                   env := \<lparr>HTTP_PROXY = None, HTTPS_PROXY = None\<rparr>,
                   resolved := Suc (Suc (resolved w))\<rparr>"
      using a by (cases w) (simp add: w4_def w3_def w2_def w1_def close_callback_def)
    then show "run w [StopCall, StopCall, CloseDone, CloseDone]
           = Inr (w\<lparr>proxy := (proxy w)\<lparr>server := None\<rparr>,
                   env := \<lparr>HTTP_PROXY = None, HTTPS_PROXY = None\<rparr>,
                   resolved := Suc (Suc (resolved w))\<rparr>)"
      by (simp add: s1 s2 s3 s4)
  }
qed

theorem stop_idempotent_witness:
  "run (start (fresh_world \<lparr>HTTP_PROXY = None, HTTPS_PROXY = None\<rparr>)
          \<lparr>version = ''1.0'', services = JObj []\<rparr>)
       [StopCall, CloseDone, StopCall]
     = Inr \<lparr>proxy = \<lparr>server = None, port = 3128,
                     config = Some \<lparr>version = ''1.0'', services = JObj []\<rparr>\<rparr>,
            env = \<lparr>HTTP_PROXY = None, HTTPS_PROXY = None\<rparr>,
            pending_close = 0, resolved = 2\<rparr>
   \<and> \<not> listening_socket
        \<lparr>proxy = \<lparr>server = None, port = 3128,
                  config = Some \<lparr>version = ''1.0'', services = JObj []\<rparr>\<rparr>,
         env = \<lparr>HTTP_PROXY = None, HTTPS_PROXY = None\<rparr>,
         pending_close = 0, resolved = 2\<rparr>
   \<and> listening_socket (start (fresh_world \<lparr>HTTP_PROXY = None, HTTPS_PROXY = None\<rparr>)
          \<lparr>version = ''1.0'', services = JObj []\<rparr>)"
proof -
  let ?w = "start (fresh_world \<lparr>HTTP_PROXY = None, HTTPS_PROXY = None\<rparr>)
          \<lparr>version = ''1.0'', services = JObj []\<rparr>"
  let ?w' = "\<lparr>proxy = \<lparr>server = None, port = 3128,
                     config = Some \<lparr>version = ''1.0'', services = JObj []\<rparr>\<rparr>,
            env = \<lparr>HTTP_PROXY = None, HTTPS_PROXY = None\<rparr>,
            pending_close = 0, resolved = 2\<rparr>"
  have r: "run ?w (StopCall # [CloseDone, StopCall]) = Inr ?w'"
    by (simp add: start_def fresh_world_def new_ProxyServer_def step_def stop_def
        server_close_def close_callback_def)
  have l: "listening_socket ?w"
    by (simp add: start_def fresh_world_def listening_socket_def)
  from stop_idempotent [of ?w "[CloseDone, StopCall]"] r have "\<not> listening_socket ?w'"
    by blast
  with r l show ?thesis by simp
qed


section \<open>The decimal rendering is injective\<close>

lemma digit_char_inj:
  assumes "a < 10" "b < 10" "digit_char a = digit_char b"
  shows "a = b"
proof -
  have "distinct ''0123456789''" by simp
  with assms show ?thesis
    unfolding digit_char_def by (simp add: nth_eq_iff_index_eq)
qed

lemma digit_char_digit: "a < 10 \<Longrightarrow> digit_char a \<in> set ''0123456789''"
  unfolding digit_char_def by (intro nth_mem) simp

lemma string_of_nat_digits: "set (string_of_nat n) \<subseteq> set ''0123456789''"
proof (induction n rule: string_of_nat.induct)
  case (1 n)
  show ?case
  proof (cases "n < 10")
    case True
    then show ?thesis
      using digit_char_digit [of n] by (subst string_of_nat.simps) simp
  next
    case False
    with 1 digit_char_digit [of "n mod 10"] show ?thesis
      by (subst string_of_nat.simps) simp
  qed
qed

lemma string_of_nat_not_Nil: "string_of_nat n \<noteq> []"
  by (subst string_of_nat.simps) simp

lemma string_of_nat_inj: "string_of_nat n = string_of_nat m \<Longrightarrow> n = m"
proof (induction n arbitrary: m rule: string_of_nat.induct)
  case (1 n)
  show ?case
  proof (cases "n < 10")
    case small: True
    then have n: "string_of_nat n = [digit_char n]"
      by (subst string_of_nat.simps) simp
    show ?thesis
    proof (cases "m < 10")
      case True
      then have "string_of_nat m = [digit_char m]"
        by (subst string_of_nat.simps) simp
      with n "1.prems" small True show ?thesis
        by (simp add: digit_char_inj)
    next
      case False
      then have "string_of_nat m = string_of_nat (m div 10) @ [digit_char (m mod 10)]"
        by (subst string_of_nat.simps) simp
      with n "1.prems" string_of_nat_not_Nil [of "m div 10"] show ?thesis
        by simp
    qed
  next
    case big: False
    then have n: "string_of_nat n = string_of_nat (n div 10) @ [digit_char (n mod 10)]"
      by (subst string_of_nat.simps) simp
    show ?thesis
    proof (cases "m < 10")
      case True
      then have "string_of_nat m = [digit_char m]"
        by (subst string_of_nat.simps) simp
      with n "1.prems" string_of_nat_not_Nil [of "n div 10"] show ?thesis
        by simp
    next
      case False
      then have "string_of_nat m = string_of_nat (m div 10) @ [digit_char (m mod 10)]"
        by (subst string_of_nat.simps) simp
      with n "1.prems" have
        eq: "string_of_nat (n div 10) = string_of_nat (m div 10)"
        and d: "digit_char (n mod 10) = digit_char (m mod 10)"
        by simp_all
      from "1.IH" [OF big eq] have "n div 10 = m div 10" .
      moreover from d have "n mod 10 = m mod 10"
        by (intro digit_char_inj) simp_all
      ultimately show ?thesis
        by (metis div_mult_mod_eq)
    qed
  qed
qed

lemma string_of_int_inj: "string_of_int i = string_of_int j \<Longrightarrow> i = j"
proof -
  assume eq: "string_of_int i = string_of_int j"
  have nominus: "CHR ''-'' # s \<noteq> string_of_nat n" for s n
  proof
    assume "CHR ''-'' # s = string_of_nat n"
    then have "CHR ''-'' \<in> set (string_of_nat n)"
      by (metis list.set_intros(1))
    with string_of_nat_digits [of n] show False by auto
  qed
  consider "i < 0" "j < 0" | "i < 0" "\<not> j < 0" | "\<not> i < 0" "j < 0" | "\<not> i < 0" "\<not> j < 0"
    by blast
  then show ?thesis
  proof cases
    case 1
    with eq have "nat (- i) = nat (- j)"
      by (simp add: string_of_int_def string_of_nat_inj)
    with 1 show ?thesis by simp
  next
    case 2
    with eq nominus show ?thesis by (simp add: string_of_int_def)
  next
    case 3
    with eq nominus [of "string_of_nat (nat (- j))" "nat i"] show ?thesis
      by (simp add: string_of_int_def)
  next
    case 4
    with eq have "nat i = nat j"
      by (simp add: string_of_int_def string_of_nat_inj)
    with 4 show ?thesis by simp
  qed
qed

lemma etag_eq_iff: "etag rt1 = etag rt2 \<longleftrightarrow> date_now rt1 = date_now rt2"
  by (auto simp: etag_def dest: string_of_int_inj)


section \<open>MockResponseGenerator: S3\<close>

lemma js_get_inherited:
  "inherited rt2 = inherited rt1 \<Longrightarrow> js_get rt2 v k = js_get rt1 v k"
  by (cases v) simp_all

lemma s3_objectConfig_inherited:
  "inherited rt2 = inherited rt1 \<Longrightarrow> s3_objectConfig rt2 cfg b k = s3_objectConfig rt1 cfg b k"
proof -
  assume "inherited rt2 = inherited rt1"
  then have "js_get rt2 = js_get rt1"
    by (intro ext) (rule js_get_inherited)
  then show ?thesis
    by (simp add: s3_objectConfig_def js_opt_member_def Let_def)
qed

lemma pathParts_nonempty: "p \<in> set (pathParts req) \<Longrightarrow> p \<noteq> []"
  by (simp add: pathParts_def)

lemma js_join_nonempty: "k \<noteq> [] \<Longrightarrow> js_join sep (k # ks) \<noteq> []"
  by (cases ks) simp_all

lemma pathParts_bucket_key:
  assumes "pathParts req = b # k # ks"
  shows "js_at (pathParts req) 0 = Some b" "b \<noteq> []"
    "js_join ''/'' (drop 1 (pathParts req)) = js_join ''/'' (k # ks)"
    "js_join ''/'' (k # ks) \<noteq> []"
proof -
  show "js_at (pathParts req) 0 = Some b"
    by (simp add: assms js_at_def)
  show "b \<noteq> []"
    using pathParts_nonempty [of b req] by (simp add: assms)
  show "js_join ''/'' (drop 1 (pathParts req)) = js_join ''/'' (k # ks)"
    by (simp add: assms)
  have "k \<noteq> []"
    using pathParts_nonempty [of k req] by (simp add: assms)
  then show "js_join ''/'' (k # ks) \<noteq> []"
    by (rule js_join_nonempty)
qed


lemma generateS3Response_get_found:
  assumes "http_method req = Some ''GET''" "pathParts req = b # k # ks" "\<not> js_nullish cfg"
    and "js_truthy (s3_objectConfig rt cfg b (js_join ''/'' (k # ks)))"
  shows "generateS3Response rt op cfg req =
           Inr \<lparr>statusCode = 200,
                mock_headers = Some
                  [(''Content-Type'',
                      js_or (js_opt_member rt
                               (js_get rt (s3_objectConfig rt cfg b (js_join ''/'' (k # ks))) ''metadata'')
                               ''ContentType'')
                            (JStr ''application/octet-stream'')),
                   (''ETag'', JStr (etag rt)),
                   (''Last-Modified'', JStr (utc_string rt))],
                body = js_get rt (s3_objectConfig rt cfg b (js_join ''/'' (k # ks))) ''content''\<rparr>"
  using assms(1,3,4) pathParts_bucket_key [OF assms(2)]
  by (simp add: generateS3Response_def Let_def)

lemma generateS3Response_get_missing:
  assumes "http_method req = Some ''GET''" "pathParts req = b # k # ks" "\<not> js_nullish cfg"
    and "\<not> js_truthy (s3_objectConfig rt cfg b (js_join ''/'' (k # ks)))"
  shows "generateS3Response rt op cfg req = Inr not_found"
  using assms(1,3,4) pathParts_bucket_key [OF assms(2)]
  by (simp add: generateS3Response_def Let_def s3_put_or_404_def)






text \<open>
  Claim C7, as amended. When a GET finds a configured object, the answer has status 200 and
  carries as ETag the clock reading of \<open>Date.now()\<close>, in milliseconds and between double
  quotes. Two GETs of the same object have the same body, and their ETags differ exactly when
  their clock readings differ.
\<close>

theorem s3_etag_follows_clock:
  "http_method req = Some ''GET'' \<and> pathParts req = b # k # ks \<and> \<not> js_nullish cfg
     \<and> js_truthy (s3_objectConfig rt1 cfg b (js_join ''/'' (k # ks)))
     \<and> inherited rt2 = inherited rt1 \<longrightarrow>
   (\<exists>r1 r2. generateS3Response rt1 op cfg req = Inr r1
          \<and> generateS3Response rt2 op cfg req = Inr r2
          \<and> statusCode r1 = 200 \<and> statusCode r2 = 200
          \<and> body r1 = body r2
          \<and> header r1 ''ETag'' = Some (JStr (etag rt1))
          \<and> header r2 ''ETag'' = Some (JStr (etag rt2))
          \<and> (header r1 ''ETag'' = header r2 ''ETag'' \<longleftrightarrow> date_now rt1 = date_now rt2))"
proof
  assume a: "http_method req = Some ''GET'' \<and> pathParts req = b # k # ks \<and> \<not> js_nullish cfg
     \<and> js_truthy (s3_objectConfig rt1 cfg b (js_join ''/'' (k # ks)))
     \<and> inherited rt2 = inherited rt1"
  let ?key = "js_join ''/'' (k # ks)"
  from a have m: "http_method req = Some ''GET''" and p: "pathParts req = b # k # ks"
    and n: "\<not> js_nullish cfg" and t: "js_truthy (s3_objectConfig rt1 cfg b ?key)"
    and i: "inherited rt2 = inherited rt1"
    by blast+
  have o: "s3_objectConfig rt2 cfg b ?key = s3_objectConfig rt1 cfg b ?key"
    by (rule s3_objectConfig_inherited [OF i])
  have g: "js_get rt2 = js_get rt1"
    by (intro ext) (rule js_get_inherited [OF i])
  have 1: "generateS3Response rt1 op cfg req =
           Inr \<lparr>statusCode = 200,
                mock_headers = Some
                  [(''Content-Type'',
                      js_or (js_opt_member rt1 (js_get rt1 (s3_objectConfig rt1 cfg b ?key) ''metadata'')
                               ''ContentType'')
                            (JStr ''application/octet-stream'')),
                   (''ETag'', JStr (etag rt1)),
                   (''Last-Modified'', JStr (utc_string rt1))],
                body = js_get rt1 (s3_objectConfig rt1 cfg b ?key) ''content''\<rparr>"
    by (rule generateS3Response_get_found [OF m p n t])
  from t o have t2: "js_truthy (s3_objectConfig rt2 cfg b ?key)"
    by simp
  have 2: "generateS3Response rt2 op cfg req =
           Inr \<lparr>statusCode = 200,
                mock_headers = Some
                  [(''Content-Type'',
                      js_or (js_opt_member rt2 (js_get rt2 (s3_objectConfig rt2 cfg b ?key) ''metadata'')
                               ''ContentType'')
                            (JStr ''application/octet-stream'')),
                   (''ETag'', JStr (etag rt2)),
                   (''Last-Modified'', JStr (utc_string rt2))],
                body = js_get rt2 (s3_objectConfig rt2 cfg b ?key) ''content''\<rparr>"
    by (rule generateS3Response_get_found [OF m p n t2])
  show "\<exists>r1 r2. generateS3Response rt1 op cfg req = Inr r1
          \<and> generateS3Response rt2 op cfg req = Inr r2
          \<and> statusCode r1 = 200 \<and> statusCode r2 = 200
          \<and> body r1 = body r2
          \<and> header r1 ''ETag'' = Some (JStr (etag rt1))
          \<and> header r2 ''ETag'' = Some (JStr (etag rt2))
          \<and> (header r1 ''ETag'' = header r2 ''ETag'' \<longleftrightarrow> date_now rt1 = date_now rt2)"
    unfolding 1 2 o g by (simp add: header_def etag_eq_iff)
qed

lemma etag_1700000000999:
  "string_of_int 1700000000999 = ''1700000000999''"
  by (simp add: string_of_int_def string_of_nat.simps digit_char_def)

lemma s3_objectConfig_b_k:
  "s3_objectConfig rt
     (JObj [(''buckets'', JObj [(''b'', JObj [(''objects'', JObj [(''k'', JObj [(''content'', JStr ''X'')])])])])])
     ''b'' ''k'' = JObj [(''content'', JStr ''X'')]"
  by (simp add: s3_objectConfig_def js_opt_member_def)

theorem s3_etag_follows_clock_witness:
  "(\<exists>r1 r2.
      generateS3Response
        \<lparr>inherited = \<lambda>v. [], date_now = 1700000000999, utc_string = ''Tue, 14 Nov 2023 22:13:20 GMT''\<rparr>
        ''GET_b''
        (JObj [(''buckets'', JObj [(''b'', JObj [(''objects'', JObj [(''k'', JObj [(''content'', JStr ''X'')])])])])])
        \<lparr>http_method = Some ''GET'', url = Some ''/b/k'', headers = [], payload = ''''\<rparr> = Inr r1
    \<and> generateS3Response
        \<lparr>inherited = \<lambda>v. [], date_now = 1700000001000, utc_string = ''Tue, 14 Nov 2023 22:13:21 GMT''\<rparr>
        ''GET_b''
        (JObj [(''buckets'', JObj [(''b'', JObj [(''objects'', JObj [(''k'', JObj [(''content'', JStr ''X'')])])])])])
        \<lparr>http_method = Some ''GET'', url = Some ''/b/k'', headers = [], payload = ''''\<rparr> = Inr r2
    \<and> body r1 = body r2
    \<and> header r1 ''ETag'' \<noteq> header r2 ''ETag'')"
proof -
  let ?rt1 = "\<lparr>inherited = \<lambda>v. [], date_now = 1700000000999, utc_string = ''Tue, 14 Nov 2023 22:13:20 GMT''\<rparr>"
  let ?rt2 = "\<lparr>inherited = \<lambda>v. [], date_now = 1700000001000, utc_string = ''Tue, 14 Nov 2023 22:13:21 GMT''\<rparr>"
  let ?cfg = "JObj [(''buckets'', JObj [(''b'', JObj [(''objects'', JObj [(''k'', JObj [(''content'', JStr ''X'')])])])])]"
  let ?req = "\<lparr>http_method = Some ''GET'', url = Some ''/b/k'', headers = [], payload = ''''\<rparr>"
  have h: "http_method ?req = Some ''GET'' \<and> pathParts ?req = ''b'' # ''k'' # [] \<and> \<not> js_nullish ?cfg
     \<and> js_truthy (s3_objectConfig ?rt1 ?cfg ''b'' (js_join ''/'' (''k'' # [])))
     \<and> inherited ?rt2 = inherited ?rt1"
    by (simp add: pathParts_def js_or_str_def s3_objectConfig_b_k)
  have d: "date_now ?rt1 \<noteq> date_now ?rt2"
    by simp
  from s3_etag_follows_clock [of ?req "''b''" "''k''" "[]" ?cfg ?rt1 ?rt2 "''GET_b''"] h
  obtain r1 r2 where "generateS3Response ?rt1 ''GET_b'' ?cfg ?req = Inr r1"
    and "generateS3Response ?rt2 ''GET_b'' ?cfg ?req = Inr r2"
    and "body r1 = body r2"
    and "header r1 ''ETag'' = header r2 ''ETag'' \<longleftrightarrow> date_now ?rt1 = date_now ?rt2"
    by blast
  with d show ?thesis by blast
qed

text \<open>
  Claim C7, as stated, fails: the clock counts milliseconds, and two GETs of the same object
  answered within one millisecond carry the same ETag. Here the second answer differs from
  the first in its \<open>Last-Modified\<close> header only.
\<close>

theorem s3_etag_counterexample:
  \<open>generateS3Response
      \<lparr>inherited = \<lambda>v. [], date_now = 1700000000999, utc_string = ''Tue, 14 Nov 2023 22:13:20 GMT''\<rparr>
      ''GET_b''
      (JObj [(''buckets'', JObj [(''b'', JObj [(''objects'', JObj [(''k'', JObj [(''content'', JStr ''X'')])])])])])
      \<lparr>http_method = Some ''GET'', url = Some ''/b/k'', headers = [], payload = ''''\<rparr>
    = Inr \<lparr>statusCode = 200,
           mock_headers = Some [(''Content-Type'', JStr ''application/octet-stream''),
                                (''ETag'', JStr ([CHR ''"''] @ ''1700000000999'' @ [CHR ''"''])),
                                (''Last-Modified'', JStr ''Tue, 14 Nov 2023 22:13:20 GMT'')],
           body = JStr ''X''\<rparr>
   \<and> generateS3Response
      \<lparr>inherited = \<lambda>v. [], date_now = 1700000000999, utc_string = ''Tue, 14 Nov 2023 22:13:21 GMT''\<rparr>
      ''GET_b''
      (JObj [(''buckets'', JObj [(''b'', JObj [(''objects'', JObj [(''k'', JObj [(''content'', JStr ''X'')])])])])])
      \<lparr>http_method = Some ''GET'', url = Some ''/b/k'', headers = [], payload = ''''\<rparr>
    = Inr \<lparr>statusCode = 200,
           mock_headers = Some [(''Content-Type'', JStr ''application/octet-stream''),
                                (''ETag'', JStr ([CHR ''"''] @ ''1700000000999'' @ [CHR ''"''])),
                                (''Last-Modified'', JStr ''Tue, 14 Nov 2023 22:13:21 GMT'')],
           body = JStr ''X''\<rparr>\<close>
proof -
  let ?cfg = "JObj [(''buckets'', JObj [(''b'', JObj [(''objects'', JObj [(''k'', JObj [(''content'', JStr ''X'')])])])])]"
  let ?req = "\<lparr>http_method = Some ''GET'', url = Some ''/b/k'', headers = [], payload = ''''\<rparr>"
  have p: "pathParts ?req = ''b'' # ''k'' # []"
    by (simp add: pathParts_def js_or_str_def)
  have m: "http_method ?req = Some ''GET''" by simp
  have n: "\<not> js_nullish ?cfg" by simp
  have t: "js_truthy (s3_objectConfig rt ?cfg ''b'' (js_join ''/'' (''k'' # [])))" for rt
    by (simp add: s3_objectConfig_b_k)
  show ?thesis
    unfolding generateS3Response_get_found [OF m p n t]
    by (simp add: s3_objectConfig_b_k etag_def etag_1700000000999 js_opt_member_def js_or_def)
qed


section \<open>MockResponseGenerator: DynamoDB\<close>

lemma string_of_nat_0: "string_of_nat 0 = ''0''"
  by (simp add: string_of_nat.simps digit_char_def)

lemma array_index_0: "array_index ''0'' (Suc n) = Some 0"
  by (simp add: array_index_def upt_conv_Cons string_of_nat_0 del: upt_Suc)

lemma js_get_plain:
  "k \<notin> set object_prototype_members \<Longrightarrow>
   js_get rt (JObj kvs) k = (case map_of kvs k of Some v \<Rightarrow> v | None \<Rightarrow> JUndefined)"
  by (simp split: option.splits)

lemma not_prototype_members:
  "''tables'' \<notin> set object_prototype_members"
  "''Users'' \<notin> set object_prototype_members"
  "''items'' \<notin> set object_prototype_members"
  by (simp_all add: object_prototype_members_def)

lemma is_object_truthy: "is_object v \<Longrightarrow> js_truthy v"
  by (cases v) simp_all

lemma is_object_not_nullish: "is_object v \<Longrightarrow> \<not> js_nullish v"
  by (cases v) simp_all

lemma users_first_item:
  assumes "dynamodb_config cfg"
  shows "js_or (js_opt_member rt
                 (js_opt_member rt (js_opt_member rt (js_get rt cfg ''tables'') ''Users'') ''items'')
                 ''0'')
               (JObj [])
         = first_configured_item cfg"
proof -
  from assms obtain c where cfg: "cfg = JObj c"
    by (cases cfg) (simp_all add: dynamodb_config_def)
  show ?thesis
  proof (cases "map_of c ''tables''")
    case None
    then show ?thesis
      by (simp add: cfg js_get_plain not_prototype_members js_opt_member_def js_or_def
          first_configured_item_def users_items_def)
  next
    case (Some t)
    with assms cfg obtain ts where t: "t = JObj ts"
      by (cases t) (simp_all add: dynamodb_config_def)
    show ?thesis
    proof (cases "map_of ts ''Users''")
      case None
      with Some t show ?thesis
        by (simp add: cfg js_get_plain not_prototype_members js_opt_member_def js_or_def
            first_configured_item_def users_items_def)
    next
      case users: (Some u)
      with assms cfg Some t obtain us where u: "u = JObj us"
        by (cases u) (simp_all add: dynamodb_config_def)
      show ?thesis
      proof (cases "map_of us ''items''")
        case None
        with Some t users u show ?thesis
          by (simp add: cfg js_get_plain not_prototype_members js_opt_member_def js_or_def
              first_configured_item_def users_items_def)
      next
        case items: (Some i)
        with assms cfg Some t users u obtain xs where i: "i = JArr xs" and xs: "list_all is_object xs"
          by (cases i) (simp_all add: dynamodb_config_def)
        have chain: "js_opt_member rt (js_opt_member rt (js_get rt cfg ''tables'') ''Users'') ''items''
                       = JArr xs"
          using Some t users u items i
          by (simp add: cfg js_get_plain not_prototype_members js_opt_member_def)
        have spec: "users_items cfg = Some (JArr xs)"
          using Some t users u items i by (simp add: cfg users_items_def)
        show ?thesis
        proof (cases xs)
          case Nil
          then show ?thesis
            unfolding chain first_configured_item_def spec
            by (simp add: js_opt_member_def array_index_def is_array_index_def js_or_def)
        next
          case (Cons x rest)
          with xs have "js_truthy x"
            by (simp add: is_object_truthy)
          with Cons show ?thesis
            unfolding chain first_configured_item_def spec
            by (simp add: js_opt_member_def array_index_0 js_or_def)
        qed
      qed
    qed
  qed
qed

text \<open>
  Claim C6. An operation that contains \<open>GetItem\<close> is answered with status 200 and a body whose
  \<open>Item\<close> is, for a service configuration of the shape of the data model, the first item
  configured for the table \<open>Users\<close>, or the empty object when there is none. An operation
  that contains \<open>PutItem\<close> (and not \<open>GetItem\<close>, which is tested first) is answered with status
  200 and the empty object as body. Every other operation is answered with status 400.
\<close>

theorem dynamodb_operations:
  "(js_includes op ''GetItem'' \<and> \<not> js_nullish cfg \<longrightarrow>
      (\<exists>item. generateDynamoDBResponse rt op cfg req =
                Inr \<lparr>statusCode = 200, mock_headers = None, body = JObj [(''Item'', item)]\<rparr>
              \<and> (dynamodb_config cfg \<longrightarrow> item = first_configured_item cfg)))
   \<and> (\<not> js_includes op ''GetItem'' \<and> js_includes op ''PutItem'' \<longrightarrow>
        generateDynamoDBResponse rt op cfg req =
          Inr \<lparr>statusCode = 200, mock_headers = None, body = JObj []\<rparr>)
   \<and> (\<not> js_includes op ''GetItem'' \<and> \<not> js_includes op ''PutItem'' \<longrightarrow>
        generateDynamoDBResponse rt op cfg req =
          Inr \<lparr>statusCode = 400, mock_headers = None,
               body = JObj [(''error'', JStr ''Unsupported operation'')]\<rparr>)"
proof (intro conjI impI)
  assume a: "js_includes op ''GetItem'' \<and> \<not> js_nullish cfg"
  let ?item = "js_or (js_opt_member rt
                 (js_opt_member rt (js_opt_member rt (js_get rt cfg ''tables'') ''Users'') ''items'')
                 ''0'')
               (JObj [])"
  from a have "generateDynamoDBResponse rt op cfg req =
                Inr \<lparr>statusCode = 200, mock_headers = None, body = JObj [(''Item'', ?item)]\<rparr>"
    by (simp add: generateDynamoDBResponse_def Let_def)
  moreover have "dynamodb_config cfg \<longrightarrow> ?item = first_configured_item cfg"
    using users_first_item [of cfg rt] by blast
  ultimately show "\<exists>item. generateDynamoDBResponse rt op cfg req =
                Inr \<lparr>statusCode = 200, mock_headers = None, body = JObj [(''Item'', item)]\<rparr>
              \<and> (dynamodb_config cfg \<longrightarrow> item = first_configured_item cfg)"
    by blast
next
  assume "\<not> js_includes op ''GetItem'' \<and> js_includes op ''PutItem''"
  then show "generateDynamoDBResponse rt op cfg req =
          Inr \<lparr>statusCode = 200, mock_headers = None, body = JObj []\<rparr>"
    by (simp add: generateDynamoDBResponse_def)
next
  assume "\<not> js_includes op ''GetItem'' \<and> \<not> js_includes op ''PutItem''"
  then show "generateDynamoDBResponse rt op cfg req =
          Inr \<lparr>statusCode = 400, mock_headers = None,
               body = JObj [(''error'', JStr ''Unsupported operation'')]\<rparr>"
    by (simp add: generateDynamoDBResponse_def)
qed

theorem dynamodb_operations_witness:
  "generateDynamoDBResponse
     \<lparr>inherited = \<lambda>v. [], date_now = 1700000000000, utc_string = ''Tue, 14 Nov 2023 22:13:20 GMT''\<rparr>
     ''GetItem''
     (JObj [(''tables'', JObj [(''Users'', JObj [(''items'',
        JArr [JObj [(''id'', JStr ''user1'')], JObj [(''id'', JStr ''user2'')]])])])])
     \<lparr>http_method = Some ''POST'', url = Some ''/'',
      headers = [(''x-amz-target'', ''DynamoDB_20120810.GetItem'')], payload = []\<rparr>
   = Inr \<lparr>statusCode = 200, mock_headers = None,
          body = JObj [(''Item'', JObj [(''id'', JStr ''user1'')])]\<rparr>
   \<and> generateDynamoDBResponse
     \<lparr>inherited = \<lambda>v. [], date_now = 1700000000000, utc_string = ''Tue, 14 Nov 2023 22:13:20 GMT''\<rparr>
     ''PutItem''
     (JObj [(''tables'', JObj [])])
     \<lparr>http_method = Some ''POST'', url = Some ''/'',
      headers = [(''x-amz-target'', ''DynamoDB_20120810.PutItem'')], payload = []\<rparr>
   = Inr \<lparr>statusCode = 200, mock_headers = None, body = JObj []\<rparr>
   \<and> generateDynamoDBResponse
     \<lparr>inherited = \<lambda>v. [], date_now = 1700000000000, utc_string = ''Tue, 14 Nov 2023 22:13:20 GMT''\<rparr>
     ''Query''
     (JObj [(''tables'', JObj [])])
     \<lparr>http_method = Some ''POST'', url = Some ''/'',
      headers = [(''x-amz-target'', ''DynamoDB_20120810.Query'')], payload = []\<rparr>
   = Inr \<lparr>statusCode = 400, mock_headers = None,
          body = JObj [(''error'', JStr ''Unsupported operation'')]\<rparr>"
proof -
  let ?rt = "\<lparr>inherited = \<lambda>v. [], date_now = 1700000000000, utc_string = ''Tue, 14 Nov 2023 22:13:20 GMT''\<rparr>"
  let ?c1 = "JObj [(''tables'', JObj [(''Users'', JObj [(''items'',
        JArr [JObj [(''id'', JStr ''user1'')], JObj [(''id'', JStr ''user2'')]])])])]"
  let ?c2 = "JObj [(''tables'', JObj [])]"
  let ?r1 = "\<lparr>http_method = Some ''POST'', url = Some ''/'',
      headers = [(''x-amz-target'', ''DynamoDB_20120810.GetItem'')], payload = []\<rparr>"
  let ?r2 = "\<lparr>http_method = Some ''POST'', url = Some ''/'',
      headers = [(''x-amz-target'', ''DynamoDB_20120810.PutItem'')], payload = []\<rparr>"
  let ?r3 = "\<lparr>http_method = Some ''POST'', url = Some ''/'',
      headers = [(''x-amz-target'', ''DynamoDB_20120810.Query'')], payload = []\<rparr>"
  have g: "js_includes ''GetItem'' ''GetItem'' \<and> \<not> js_nullish ?c1"
    by simp
  have c: "dynamodb_config ?c1"
    by (simp add: dynamodb_config_def)
  have f: "first_configured_item ?c1 = JObj [(''id'', JStr ''user1'')]"
    by (simp add: first_configured_item_def users_items_def)
  from dynamodb_operations [of "''GetItem''" ?c1 ?rt ?r1] g c f
  have 1: "generateDynamoDBResponse ?rt ''GetItem'' ?c1 ?r1
             = Inr \<lparr>statusCode = 200, mock_headers = None,
                    body = JObj [(''Item'', JObj [(''id'', JStr ''user1'')])]\<rparr>"
    by auto
  have p: "\<not> js_includes ''PutItem'' ''GetItem'' \<and> js_includes ''PutItem'' ''PutItem''"
    by simp
  from dynamodb_operations [of "''PutItem''" ?c2 ?rt ?r2] p
  have 2: "generateDynamoDBResponse ?rt ''PutItem'' ?c2 ?r2
             = Inr \<lparr>statusCode = 200, mock_headers = None, body = JObj []\<rparr>"
    by blast
  have q: "\<not> js_includes ''Query'' ''GetItem'' \<and> \<not> js_includes ''Query'' ''PutItem''"
    by simp
  from dynamodb_operations [of "''Query''" ?c2 ?rt ?r3] q
  have 3: "generateDynamoDBResponse ?rt ''Query'' ?c2 ?r3
             = Inr \<lparr>statusCode = 400, mock_headers = None,
                    body = JObj [(''error'', JStr ''Unsupported operation'')]\<rparr>"
    by blast
  from 1 2 3 show ?thesis by (intro conjI)
qed


section \<open>MockResponseGenerator: S3 objects on the plain path\<close>

lemma own_property_get:
  assumes "own_property v k = Some x"
  shows "js_get rt v k = x" "\<not> js_nullish v" "js_truthy v"
  using assms by (cases v; simp)+

text \<open>
  The round trip of the S3 generator for a request whose \<open>url\<close> is the bare path: with bucket
  \<open>b\<close>, object \<open>k\<close> and content \<open>X\<close> configured, a GET of \<open>/b/k\<close> is answered with status 200
  and body \<open>X\<close>, the \<open>Content-Type\<close> being that of the metadata or \<open>application/octet-stream\<close>,
  and a GET of \<open>/b/missing\<close> with 404.
\<close>

lemma s3_get_bare_path:
  assumes "own_property sc ''buckets'' = Some bs" "own_property bs ''b'' = Some bc"
    and "own_property bc ''objects'' = Some os" "own_property os ''k'' = Some oc"
    and "own_property oc ''content'' = Some (JStr ''X'')"
  shows "generateS3Response rt op sc \<lparr>http_method = Some ''GET'', url = Some ''/b/k'', headers = hs, payload = p\<rparr>
           = Inr \<lparr>statusCode = 200,
                  mock_headers = Some
                    [(''Content-Type'',
                        js_or (js_opt_member rt (js_get rt oc ''metadata'') ''ContentType'')
                              (JStr ''application/octet-stream'')),
                     (''ETag'', JStr (etag rt)),
                     (''Last-Modified'', JStr (utc_string rt))],
                  body = JStr ''X''\<rparr>"
    and "own_property os ''missing'' = None \<Longrightarrow>
         generateS3Response rt op sc \<lparr>http_method = Some ''GET'', url = Some ''/b/missing'', headers = hs, payload = p\<rparr>
           = Inr not_found"
proof -
  let ?get = "\<lparr>http_method = Some ''GET'', url = Some ''/b/k'', headers = hs, payload = p\<rparr>"
  let ?miss = "\<lparr>http_method = Some ''GET'', url = Some ''/b/missing'', headers = hs, payload = p\<rparr>"
  have n: "\<not> js_nullish sc"
    by (rule own_property_get(2) [OF assms(1)])
  have os: "js_opt_member rt (js_opt_member rt (js_get rt sc ''buckets'') ''b'') ''objects'' = os"
    using own_property_get(1) [OF assms(1), of rt] own_property_get(1) [OF assms(2), of rt]
      own_property_get(1) [OF assms(3), of rt]
      own_property_get(2) [OF assms(2)] own_property_get(2) [OF assms(3)]
    by (simp add: js_opt_member_def)
  have o: "s3_objectConfig rt sc ''b'' (js_join ''/'' (''k'' # [])) = oc"
    using os own_property_get(1) [OF assms(4), of rt] own_property_get(2) [OF assms(4)]
    by (simp add: s3_objectConfig_def Let_def js_opt_member_def)
  have p: "pathParts ?get = ''b'' # ''k'' # []"
    by (simp add: pathParts_def js_or_str_def)
  have t: "js_truthy (s3_objectConfig rt sc ''b'' (js_join ''/'' (''k'' # [])))"
    unfolding o by (rule own_property_get(3) [OF assms(5)])
  have m: "http_method ?get = Some ''GET''" by simp
  show "generateS3Response rt op sc ?get
           = Inr \<lparr>statusCode = 200,
                  mock_headers = Some
                    [(''Content-Type'',
                        js_or (js_opt_member rt (js_get rt oc ''metadata'') ''ContentType'')
                              (JStr ''application/octet-stream'')),
                     (''ETag'', JStr (etag rt)),
                     (''Last-Modified'', JStr (utc_string rt))],
                  body = JStr ''X''\<rparr>"
    unfolding generateS3Response_get_found [OF m p n t] o
    by (simp add: own_property_get(1) [OF assms(5)])
  assume miss: "own_property os ''missing'' = None"
  from assms(4) obtain kvs where kvs: "os = JObj kvs"
    by (cases os) simp_all
  with miss have "js_get rt os ''missing'' = JUndefined"
    by (simp add: object_prototype_members_def)
  with os kvs have o': "s3_objectConfig rt sc ''b'' (js_join ''/'' (''missing'' # [])) = JUndefined"
    by (simp add: s3_objectConfig_def Let_def js_opt_member_def)
  have p': "pathParts ?miss = ''b'' # ''missing'' # []"
    by (simp add: pathParts_def js_or_str_def)
  have m': "http_method ?miss = Some ''GET''" by simp
  show "generateS3Response rt op sc ?miss = Inr not_found"
    by (rule generateS3Response_get_missing [OF m' p' n]) (simp only: o' js_truthy.simps not_False_eq_True)
qed

text \<open>
  On the plain path the generator is reached only with a request whose target names its host,
  as \<open>handleRequest\<close> takes the hostname from \<open>req.url\<close>; the generator splits that same text at
  its slashes. The protocol part then counts as the bucket, and the host and path as the key.
\<close>

lemma pathParts_absolute_form:
  "pathParts \<lparr>http_method = m, url = Some ''http://s3.amazonaws.com/b/k'', headers = hs, payload = p\<rparr>
     = [''http:'', ''s3.amazonaws.com'', ''b'', ''k'']"
  by (simp add: pathParts_def js_or_str_def)

text \<open>
  Claim C1 at a request the proxy receives. The catalog holds bucket \<open>b\<close> with object \<open>k\<close> of
  content \<open>X\<close>; a plain proxied GET of \<open>/b/k\<close> on the host \<open>s3.amazonaws.com\<close> has the request
  target \<open>http://s3.amazonaws.com/b/k\<close>. The answer is 404, not the object.
\<close>

theorem s3_get_proxied_request:
  "generateMockResponse
     \<lparr>server = Some \<lparr>listening = True\<rparr>, port = 3128,
      config = Some \<lparr>version = ''1.0'',
        services = JObj [(''s3'', JObj [(''buckets'', JObj [(''b'', JObj [(''objects'',
                      JObj [(''k'', JObj [(''content'', JStr ''X'')])])])])])]\<rparr>\<rparr>
     \<lparr>inherited = \<lambda>v. [], date_now = 1700000000000, utc_string = ''Tue, 14 Nov 2023 22:13:20 GMT''\<rparr>
     \<lparr>http_method = Some ''GET'', url = Some ''http://s3.amazonaws.com/b/k'',
      headers = [(''host'', ''s3.amazonaws.com'')], payload = []\<rparr>
     ''s3.amazonaws.com''
   = Inr (Some \<lparr>statusCode = 404, mock_headers = None, body = JObj [(''error'', JStr ''Not Found'')]\<rparr>)"
proof -
  let ?sc = "JObj [(''buckets'', JObj [(''b'', JObj [(''objects'',
                      JObj [(''k'', JObj [(''content'', JStr ''X'')])])])])]"
  let ?rt = "\<lparr>inherited = \<lambda>v. [], date_now = 1700000000000, utc_string = ''Tue, 14 Nov 2023 22:13:20 GMT''\<rparr>"
  let ?req = "\<lparr>http_method = Some ''GET'', url = Some ''http://s3.amazonaws.com/b/k'',
      headers = [(''host'', ''s3.amazonaws.com'')], payload = []\<rparr>"
  have p: "pathParts ?req = ''http:'' # ''s3.amazonaws.com'' # [''b'', ''k'']"
    by (simp add: pathParts_absolute_form)
  have m: "http_method ?req = Some ''GET''" by simp
  have n: "\<not> js_nullish ?sc" by simp
  have o: "\<not> js_truthy (s3_objectConfig ?rt ?sc ''http:'' (js_join ''/'' (''s3.amazonaws.com'' # [''b'', ''k''])))"
    by (simp add: s3_objectConfig_def js_opt_member_def object_prototype_members_def)
  have g: "generateS3Response ?rt op ?sc ?req = Inr not_found" for op
    by (rule generateS3Response_get_missing [OF m p n o])
  have s: "identifyService ''s3.amazonaws.com'' = Some ''s3''"
    by (simp add: identifyService_def)
  show ?thesis
    by (simp add: generateMockResponse_def s generateServiceResponse_def g not_found_def Let_def)
qed

end
